theory Spec2Isabelle
  imports Main "HOL-Library.Sublist" "HOL-Library.AList"
begin

section \<open>Python strings and lists\<close>

text \<open>
  Strings are lists of characters. A \<^typ>\<open>char\<close> stands for one code point of the
  Latin-1 range; the character classes below follow Python's \<^verbatim>\<open>str\<close> methods and
  the Unicode tables of \<^verbatim>\<open>re\<close> on that range.
\<close>

definition py_isspace :: "char \<Rightarrow> bool" where
  "py_isspace c =
     (let n = (of_char c :: nat)
      in (9 \<le> n \<and> n \<le> 13) \<or> (28 \<le> n \<and> n \<le> 32) \<or> n = 133 \<or> n = 160)"

definition is_ascii_letter :: "char \<Rightarrow> bool" where
  "is_ascii_letter c =
     (let n = (of_char c :: nat) in (65 \<le> n \<and> n \<le> 90) \<or> (97 \<le> n \<and> n \<le> 122))"

definition is_word_char :: "char \<Rightarrow> bool" where
  \<comment> \<open>\<^verbatim>\<open>\w\<close> of a \<^verbatim>\<open>str\<close> pattern: alphanumeric code points and the underscore\<close>
  "is_word_char c =
     (let n = (of_char c :: nat)
      in is_ascii_letter c \<or> (48 \<le> n \<and> n \<le> 57) \<or> n = 95
         \<or> n = 170 \<or> n = 178 \<or> n = 179 \<or> n = 181 \<or> n = 185 \<or> n = 186
         \<or> (188 \<le> n \<and> n \<le> 190)
         \<or> (192 \<le> n \<and> n \<le> 214) \<or> (216 \<le> n \<and> n \<le> 246) \<or> 248 \<le> n)"

definition py_lower_char :: "char \<Rightarrow> char" where
  "py_lower_char c =
     (let n = (of_char c :: nat)
      in if (65 \<le> n \<and> n \<le> 90) \<or> (192 \<le> n \<and> n \<le> 222 \<and> n \<noteq> 215)
         then char_of (n + 32) else c)"

definition py_lower :: "string \<Rightarrow> string" where
  "py_lower s = map py_lower_char s"

definition py_strip :: "string \<Rightarrow> string" where
  \<comment> \<open>\<^verbatim>\<open>s.strip()\<close>\<close>
  "py_strip s = rev (dropWhile py_isspace (rev (dropWhile py_isspace s)))"

definition py_lstrip_chars :: "string \<Rightarrow> string \<Rightarrow> string" where
  \<comment> \<open>\<^verbatim>\<open>s.lstrip(chars)\<close>\<close>
  "py_lstrip_chars chars s = dropWhile (\<lambda>c. c \<in> set chars) s"

definition startswith :: "string \<Rightarrow> string \<Rightarrow> bool" where
  \<comment> \<open>\<^verbatim>\<open>s.startswith(p)\<close>\<close>
  "startswith s p = prefix p s"

fun py_split :: "char \<Rightarrow> string \<Rightarrow> string list" where
  \<comment> \<open>\<^verbatim>\<open>s.split(sep)\<close> for a one-character separator: never an empty list\<close>
  "py_split sep [] = [[]]"
| "py_split sep (c # cs) =
     (if c = sep then [] # py_split sep cs
      else (case py_split sep cs of
              [] \<Rightarrow> [[c]]
            | w # ws \<Rightarrow> (c # w) # ws))"

fun py_join :: "string \<Rightarrow> string list \<Rightarrow> string" where
  \<comment> \<open>\<^verbatim>\<open>sep.join(xs)\<close>\<close>
  "py_join sep [] = []"
| "py_join sep [x] = x"
| "py_join sep (x # y # ys) = x @ sep @ py_join sep (y # ys)"

fun py_split_ws :: "string \<Rightarrow> string list" where
  \<comment> \<open>\<^verbatim>\<open>s.split()\<close>: the maximal runs of non-whitespace characters\<close>
  "py_split_ws [] = []"
| "py_split_ws (c # cs) =
     (if py_isspace c then py_split_ws cs
      else (case cs of
              [] \<Rightarrow> [[c]]
            | d # ds \<Rightarrow>
                if py_isspace d then [c] # py_split_ws cs
                else (case py_split_ws cs of
                        [] \<Rightarrow> [[c]]
                      | w # ws \<Rightarrow> (c # w) # ws)))"

definition py_take :: "int \<Rightarrow> 'a list \<Rightarrow> 'a list" where
  \<comment> \<open>the slice \<^verbatim>\<open>xs[:k]\<close>; a negative \<^verbatim>\<open>k\<close> counts from the end\<close>
  "py_take k xs = (if 0 \<le> k then take (nat k) xs else take (length xs - nat (- k)) xs)"

definition py_index :: "'a list \<Rightarrow> int \<Rightarrow> 'a option" where
  \<comment> \<open>\<^verbatim>\<open>xs[i]\<close>, with \<^term>\<open>None\<close> for IndexError\<close>
  "py_index xs i =
     (if 0 \<le> i \<and> i < int (length xs) then Some (xs ! nat i)
      else if i < 0 \<and> - int (length xs) \<le> i then Some (xs ! nat (int (length xs) + i))
      else None)"

fun contains :: "string \<Rightarrow> string \<Rightarrow> bool" where
  \<comment> \<open>\<^verbatim>\<open>needle in s\<close>\<close>
  "contains needle [] = (needle = [])"
| "contains needle (c # cs) = (prefix needle (c # cs) \<or> contains needle cs)"

definition truthy :: "string \<Rightarrow> bool" where
  "truthy s = (s \<noteq> [])"

definition fence :: string where
  "fence = [CHR 0x60, CHR 0x60, CHR 0x60]"

definition newline :: char where
  "newline = CHR 0x0A"

datatype error =
    FileNotFoundError
  | OSError
  | IndexError
  | TypeError
  | ValidationError
  | DatabaseError
  | IntegrityError

section \<open>Entity model (parser.py)\<close>

record document =
  doc_id :: string
  file_path :: string
  title :: string
  description :: "string option"
  doc_keywords :: "string list"
  category :: string
  subcategory :: "string option"
  content_type :: string
  searchable_text :: string
  headers :: "string list"
  last_modified :: int
  content_md :: string

record code_block =
  cb_document_id :: string
  language :: string
  code :: string
  cb_context :: "string option"
  line_number :: int

record graphql_element =
  el_document_id :: string
  element_type :: string
  name :: string
  el_fields :: "string list"
  el_parameters :: "string list"
  return_type :: "string option"
  el_description :: "string option"
  el_searchable_text :: string

section \<open>Parser (parser.py)\<close>

subsection \<open>Category, content type, headers\<close>

definition path_str :: "string list \<Rightarrow> string" where
  \<comment> \<open>\<^verbatim>\<open>str(path)\<close> of a relative POSIX path with the given parts\<close>
  "path_str parts = py_join ''/'' parts"

definition extract_category_from_path :: "string list \<Rightarrow> error + (string \<times> string option)" where
  \<comment> \<open>the argument is \<^verbatim>\<open>file_path.relative_to(self.docs_root).parts\<close>\<close>
  "extract_category_from_path parts =
     (if length parts = 1 then Inr (''root'', None)
      else (case parts of
              [] \<Rightarrow> Inl IndexError
            | p0 # _ \<Rightarrow>
                Inr (p0, if length parts > 2 then Some (parts ! 1) else None)))"

definition determine_content_type :: "string \<Rightarrow> string \<Rightarrow> string" where
  "determine_content_type cat rel_path =
     (if cat = ''schema'' then ''schema''
      else if cat = ''tutorials'' then ''tutorial''
      else if cat \<in> set [''develop'', ''usage''] then ''guide''
      else if contains ''reference'' (py_lower rel_path) then ''reference''
      else ''guide'')"

fun first_header_of :: "string list \<Rightarrow> string option" where
  "first_header_of [] = None"
| "first_header_of (l # ls) =
     (let line = py_strip l
      in if startswith line ''#'' then Some (py_strip (py_lstrip_chars ''#'' line))
         else first_header_of ls)"

definition extract_first_header :: "string \<Rightarrow> string option" where
  "extract_first_header markdown = first_header_of (py_split newline markdown)"

fun headers_of :: "string list \<Rightarrow> string list" where
  "headers_of [] = []"
| "headers_of (l # ls) =
     (let line = py_strip l
      in if startswith line ''#''
         then (let header_text = py_strip (py_lstrip_chars ''#'' line)
               in if truthy header_text then header_text # headers_of ls else headers_of ls)
         else headers_of ls)"

definition extract_headers :: "string \<Rightarrow> string list" where
  "extract_headers markdown = headers_of (py_split newline markdown)"

subsection \<open>Searchable text\<close>

definition backtick :: char where
  "backtick = CHR 0x60"

fun after_fence :: "string \<Rightarrow> string option" where
  \<comment> \<open>the text after the first fence in the argument, if there is one\<close>
  "after_fence [] = None"
| "after_fence (c # cs) =
     (if prefix fence (c # cs) then Some (drop 3 (c # cs)) else after_fence cs)"

function remove_fenced :: "string \<Rightarrow> string" where
  \<comment> \<open>\<^verbatim>\<open>re.sub(r'```[\s\S]*?```', '', markdown)\<close>\<close>
  "remove_fenced [] = []"
| "remove_fenced (c # cs) =
     (if prefix fence (c # cs)
      then (case after_fence (drop 3 (c # cs)) of
              Some rest \<Rightarrow> remove_fenced rest
            | None \<Rightarrow> c # remove_fenced cs)
      else c # remove_fenced cs)"
  by pat_completeness auto
termination
proof (relation "measure length")
  have shorter: "after_fence s = Some r \<Longrightarrow> length r < length s" for s r
    by (induction s arbitrary: r) (auto split: if_splits)
  fix c :: char and cs rest :: string
  assume "after_fence (drop 3 (c # cs)) = Some rest"
  from shorter [OF this] have "length rest < length (drop 3 (c # cs))" .
  then show "(rest, c # cs) \<in> measure length" by simp
qed simp_all

function remove_inline_code :: "string \<Rightarrow> string" where
  \<comment> \<open>\<^verbatim>\<open>re.sub(r'`[^`]+`', '', content)\<close>\<close>
  "remove_inline_code [] = []"
| "remove_inline_code (c # cs) =
     (if c = backtick
      then (let body = takeWhile (\<lambda>x. x \<noteq> backtick) cs;
                rest = dropWhile (\<lambda>x. x \<noteq> backtick) cs
            in if body \<noteq> [] \<and> rest \<noteq> [] then remove_inline_code (tl rest)
               else c # remove_inline_code cs)
      else c # remove_inline_code cs)"
  by pat_completeness auto
termination
  apply (relation "measure length")
    apply simp_all
  subgoal for c cs
    using length_dropWhile_le [of "\<lambda>x. x \<noteq> backtick" cs] by simp
  done

function flatten_links :: "string \<Rightarrow> string" where
  \<comment> \<open>\<^verbatim>\<open>re.sub(r'\[([^\]]+)\]\([^\)]+\)', r'\1', content)\<close>\<close>
  "flatten_links [] = []"
| "flatten_links (c # cs) =
     (if c = CHR ''[''
      then (let label = takeWhile (\<lambda>x. x \<noteq> CHR '']'') cs;
                r1 = dropWhile (\<lambda>x. x \<noteq> CHR '']'') cs;
                url = takeWhile (\<lambda>x. x \<noteq> CHR '')'') (drop 2 r1);
                r2 = dropWhile (\<lambda>x. x \<noteq> CHR '')'') (drop 2 r1)
            in if label \<noteq> [] \<and> prefix '']('' r1 \<and> url \<noteq> [] \<and> r2 \<noteq> []
               then label @ flatten_links (tl r2)
               else c # flatten_links cs)
      else c # flatten_links cs)"
  by pat_completeness auto
termination
  apply (relation "measure length")
    apply simp_all
  subgoal for c cs
    using length_dropWhile_le
            [of "\<lambda>x. x \<noteq> CHR '')''" "drop 2 (dropWhile (\<lambda>x. x \<noteq> CHR '']'') cs)"]
          length_dropWhile_le [of "\<lambda>x. x \<noteq> CHR '']''" cs]
    by simp
  done

definition clean_content :: "string \<Rightarrow> string" where
  "clean_content markdown =
     (let content = remove_fenced markdown;
          content = remove_inline_code content;
          content = flatten_links content
      in py_join '' '' (py_split_ws content))"

definition build_searchable_text ::
  "string \<Rightarrow> string option \<Rightarrow> string \<Rightarrow> string list \<Rightarrow> string list \<Rightarrow> string" where
  "build_searchable_text ttl descr content kws hdrs =
     (let parts = [ttl];
          parts = (case descr of
                     Some d \<Rightarrow> if truthy d then parts @ [d] else parts
                   | None \<Rightarrow> parts);
          parts = (if kws \<noteq> [] then parts @ kws else parts);
          parts = parts @ hdrs;
          content_text = clean_content content;
          parts = parts @ [content_text]
      in py_join '' '' (filter truthy parts))"

subsection \<open>Files and front matter\<close>

text \<open>
  Reading a file and splitting off its front matter is the work of the operating system
  and of the \<^verbatim>\<open>frontmatter\<close> package. A file is given by the parts of its path
  relative to the documentation root, its modification time, and the result of
  \<^verbatim>\<open>frontmatter.loads\<close> on its text: an error, or the metadata dictionary with
  the body. A metadata value is a YAML value: null, a string, a list, or something else.
\<close>

datatype yaml = YNull | YStr string | YList "yaml list" | YOther

record post =
  metadata :: "(string \<times> yaml) list"
  content :: string

record md_file =
  rel_parts :: "string list"
  st_mtime :: int
  loaded :: "error + post"

definition as_str :: "yaml \<Rightarrow> string option" where
  "as_str v = (case v of YStr s \<Rightarrow> Some s | _ \<Rightarrow> None)"

definition as_optional_str :: "yaml \<Rightarrow> string option option" where
  "as_optional_str v = (case v of YNull \<Rightarrow> Some None | YStr s \<Rightarrow> Some (Some s) | _ \<Rightarrow> None)"

fun as_str_items :: "yaml list \<Rightarrow> string list option" where
  "as_str_items [] = Some []"
| "as_str_items (v # vs) =
     (case (as_str v, as_str_items vs) of
        (Some s, Some ss) \<Rightarrow> Some (s # ss)
      | _ \<Rightarrow> None)"

definition as_str_list :: "yaml \<Rightarrow> string list option" where
  "as_str_list v = (case v of YList vs \<Rightarrow> as_str_items vs | _ \<Rightarrow> None)"

definition parse_file :: "(string \<Rightarrow> string) \<Rightarrow> md_file \<Rightarrow> error + document" where
  \<comment> \<open>The first argument is SHA-256 as a hexadecimal digest. A metadata value of the
      wrong type makes \<^verbatim>\<open>" ".join\<close> or the model class's validation raise; both
      are reported here as \<^term>\<open>ValidationError\<close>.\<close>
  "parse_file sha256 f =
     (case loaded f of
        Inl e \<Rightarrow> Inl e
      | Inr p \<Rightarrow>
          (let markdown_content = content p;
               rel_path = path_str (rel_parts f);
               ident = sha256 rel_path
           in case extract_category_from_path (rel_parts f) of
                Inl e \<Rightarrow> Inl e
              | Inr (cat, subcat) \<Rightarrow>
                  (let ctype = determine_content_type cat rel_path;
                       ttl = (case map_of (metadata p) ''title'' of
                                Some v \<Rightarrow> v
                              | None \<Rightarrow>
                                  YStr (case extract_first_header markdown_content of
                                          Some h \<Rightarrow> if truthy h then h else rel_path
                                        | None \<Rightarrow> rel_path));
                       descr = (case map_of (metadata p) ''description'' of
                                  Some v \<Rightarrow> v
                                | None \<Rightarrow> YNull);
                       kws = (case map_of (metadata p) ''keywords'' of
                                Some v \<Rightarrow> v
                              | None \<Rightarrow> YList []);
                       kws = (case kws of YStr s \<Rightarrow> YList [YStr s] | _ \<Rightarrow> kws);
                       hdrs = extract_headers markdown_content
                   in case (as_str ttl, as_optional_str descr, as_str_list kws) of
                        (Some t, Some d, Some ks) \<Rightarrow>
                          Inr \<lparr> doc_id = ident,
                                file_path = rel_path,
                                title = t,
                                description = d,
                                doc_keywords = ks,
                                category = cat,
                                subcategory = subcat,
                                content_type = ctype,
                                searchable_text =
                                  build_searchable_text t d markdown_content ks hdrs,
                                headers = hdrs,
                                last_modified = st_mtime f,
                                content_md = markdown_content \<rparr>
                      | _ \<Rightarrow> Inl ValidationError)))"

subsection \<open>Code blocks\<close>

definition py_range_down :: "int \<Rightarrow> int \<Rightarrow> int list" where
  \<comment> \<open>\<^verbatim>\<open>range(start, stop, -1)\<close>\<close>
  "py_range_down start stop = map (\<lambda>k. start - int k) [0..<nat (start - stop)]"

fun context_scan :: "string list \<Rightarrow> int list \<Rightarrow> string list \<Rightarrow> error + string list" where
  \<comment> \<open>the \<^verbatim>\<open>for\<close> loop of \<^verbatim>\<open>extract_context\<close>; the last argument is
      \<^verbatim>\<open>context_lines\<close>\<close>
  "context_scan lines [] context_lines = Inr context_lines"
| "context_scan lines (i # rest) context_lines =
     (case py_index lines i of
        None \<Rightarrow> Inl IndexError
      | Some l \<Rightarrow>
          (let line = py_strip l
           in if truthy line \<and> \<not> startswith line ''#''
              then context_scan lines rest (line # context_lines)
              else if context_lines \<noteq> [] then Inr context_lines
              else context_scan lines rest context_lines))"

definition extract_context :: "string list \<Rightarrow> int \<Rightarrow> error + string option" where
  "extract_context lines start_idx =
     (if start_idx < 0 then Inr None
      else (case context_scan lines (py_range_down start_idx (max (- 1) (start_idx - 5))) [] of
              Inl e \<Rightarrow> Inl e
            | Inr context_lines \<Rightarrow>
                Inr (if context_lines \<noteq> [] then Some (py_join '' '' context_lines)
                     else None)))"

function code_blocks_from :: "string list \<Rightarrow> nat \<Rightarrow> string \<Rightarrow> error + code_block list" where
  \<comment> \<open>the outer \<^verbatim>\<open>while\<close> loop of \<^verbatim>\<open>extract_code_blocks\<close>, from index
      \<^verbatim>\<open>i\<close>\<close>
  "code_blocks_from lines i ident =
     (if i < length lines
      then (let line = lines ! i
            in if startswith (py_strip line) fence
               then (let lang = py_lower (py_strip (drop 3 (py_strip line)));
                         lang = (if truthy lang then lang else ''text'');
                         i1 = i + 1;
                         start_line = i1 + 1;
                         code_lines =
                           takeWhile (\<lambda>l. \<not> startswith (py_strip l) fence) (drop i1 lines);
                         i2 = i1 + length code_lines
                     in case extract_context lines (int start_line - 2) of
                          Inl e \<Rightarrow> Inl e
                        | Inr ctx \<Rightarrow>
                            (case code_blocks_from lines (i2 + 1) ident of
                               Inl e \<Rightarrow> Inl e
                             | Inr blocks \<Rightarrow>
                                 Inr (\<lparr> cb_document_id = ident,
                                        language = lang,
                                        code = py_join [newline] code_lines,
                                        cb_context = ctx,
                                        line_number = int start_line \<rparr> # blocks)))
               else code_blocks_from lines (i + 1) ident)
      else Inr [])"
  by pat_completeness auto
termination
  by (relation "measure (\<lambda>(lines, i, ident). length lines - i)") auto

definition extract_code_blocks :: "string \<Rightarrow> string \<Rightarrow> error + code_block list" where
  "extract_code_blocks markdown ident = code_blocks_from (py_split newline markdown) 0 ident"

subsection \<open>GraphQL elements\<close>

definition match_decl_at :: "string \<Rightarrow> string \<Rightarrow> string option" where
  \<comment> \<open>a match of \<^verbatim>\<open>kw\s+(\w+)\<close> at the start of the text: group 1\<close>
  "match_decl_at kw s =
     (if prefix kw s
      then (let r = drop (length kw) s;
                r' = dropWhile py_isspace r;
                ident = takeWhile is_word_char r'
            in if length r' < length r \<and> ident \<noteq> [] then Some ident else None)
      else None)"

fun re_search_decl :: "string \<Rightarrow> string \<Rightarrow> string option" where
  \<comment> \<open>\<^verbatim>\<open>re.search(kw + r'\s+(\w+)', code)\<close>: group 1 of the leftmost match\<close>
  "re_search_decl kw [] = match_decl_at kw []"
| "re_search_decl kw (c # cs) =
     (case match_decl_at kw (c # cs) of
        Some ident \<Rightarrow> Some ident
      | None \<Rightarrow> re_search_decl kw cs)"

definition match_field_at :: "string \<Rightarrow> (string \<times> string) option" where
  \<comment> \<open>a match of \<^verbatim>\<open>([a-z_]\w*)\s*(?:\(|:|\{)\<close>, ignoring case, at the start of
      the text: group 1 and the text after the match\<close>
  "match_field_at s =
     (case s of
        [] \<Rightarrow> None
      | c # cs \<Rightarrow>
          if is_ascii_letter c \<or> c = CHR ''_''
          then (let ident = c # takeWhile is_word_char cs;
                    r = dropWhile py_isspace (dropWhile is_word_char cs)
                in case r of
                     [] \<Rightarrow> None
                   | d # rest \<Rightarrow> if d \<in> set ''(:{'' then Some (ident, rest) else None)
          else None)"

function findall_fields :: "bool \<Rightarrow> string \<Rightarrow> string list" where
  \<comment> \<open>\<^verbatim>\<open>re.findall\<close> of the field pattern; the flag says that the character before
      the text is a word character, so that \<^verbatim>\<open>\b\<close> fails at its start\<close>
  "findall_fields prev_word [] = []"
| "findall_fields prev_word (c # cs) =
     (case (if prev_word then None else match_field_at (c # cs)) of
        Some (ident, rest) \<Rightarrow> ident # findall_fields False rest
      | None \<Rightarrow> findall_fields (is_word_char c) cs)"
  by pat_completeness auto
termination
proof (relation "measure (\<lambda>(p, s). length s)")
  fix prev_word :: bool and c :: char and cs :: string and x2 :: "string \<times> string"
    and ident rest :: string
  assume m: "(if prev_word then None else match_field_at (c # cs)) = Some x2"
    and x2: "(ident, rest) = x2"
  have "length (dropWhile py_isspace (dropWhile is_word_char cs)) \<le> length cs"
    using length_dropWhile_le [of py_isspace "dropWhile is_word_char cs"]
      length_dropWhile_le [of is_word_char cs] by simp
  moreover have "\<exists>d. dropWhile py_isspace (dropWhile is_word_char cs) = d # rest"
    using m x2 by (auto simp: match_field_at_def Let_def split: if_splits list.splits)
  ultimately show "((False, rest), (prev_word, c # cs)) \<in> measure (\<lambda>(p, s). length s)"
    by auto
qed simp_all

definition match_param_at :: "string \<Rightarrow> (string \<times> string) option" where
  \<comment> \<open>a match of \<^verbatim>\<open>\$(\w+)\s*:\<close> at the start of the text\<close>
  "match_param_at s =
     (case s of
        [] \<Rightarrow> None
      | c # cs \<Rightarrow>
          if c = CHR ''$''
          then (let ident = takeWhile is_word_char cs;
                    r = dropWhile py_isspace (dropWhile is_word_char cs)
                in if ident \<noteq> []
                   then (case r of
                           [] \<Rightarrow> None
                         | d # rest \<Rightarrow> if d = CHR '':'' then Some (ident, rest) else None)
                   else None)
          else None)"

function findall_params :: "string \<Rightarrow> string list" where
  "findall_params [] = []"
| "findall_params (c # cs) =
     (case match_param_at (c # cs) of
        Some (ident, rest) \<Rightarrow> ident # findall_params rest
      | None \<Rightarrow> findall_params cs)"
  by pat_completeness auto
termination
proof (relation "measure length")
  fix c :: char and cs :: string and x2 :: "string \<times> string" and ident rest :: string
  assume m: "match_param_at (c # cs) = Some x2" and x2: "(ident, rest) = x2"
  have "length (dropWhile py_isspace (dropWhile is_word_char cs)) \<le> length cs"
    using length_dropWhile_le [of py_isspace "dropWhile is_word_char cs"]
      length_dropWhile_le [of is_word_char cs] by simp
  moreover have "\<exists>d. dropWhile py_isspace (dropWhile is_word_char cs) = d # rest"
    using m x2 by (auto simp: match_param_at_def Let_def split: if_splits list.splits)
  ultimately show "(rest, c # cs) \<in> measure length"
    by auto
qed simp_all

text \<open>
  \<^verbatim>\<open>list(set(xs))\<close> lists the distinct members of \<^verbatim>\<open>xs\<close> in the iteration order
  of a Python set, which the language leaves open. The functions below take that order as
  their first argument \<^verbatim>\<open>set_list\<close>; \<^term>\<open>set_order_ok\<close> says what Python
  guarantees of it.
\<close>

definition set_order_ok :: "(string list \<Rightarrow> string list) \<Rightarrow> bool" where
  "set_order_ok set_list = (\<forall>xs. set (set_list xs) = set xs \<and> distinct (set_list xs))"

definition extract_fields :: "(string list \<Rightarrow> string list) \<Rightarrow> int \<Rightarrow> string \<Rightarrow> string list" where
  \<comment> \<open>the second argument is \<^verbatim>\<open>MAX_FIELDS_PER_ELEMENT\<close>\<close>
  "extract_fields set_list max_fields src =
     (let flds = findall_fields False src in py_take max_fields (set_list flds))"

definition extract_parameters :: "(string list \<Rightarrow> string list) \<Rightarrow> string \<Rightarrow> string list" where
  "extract_parameters set_list src = (let params = findall_params src in set_list params)"

definition extract_graphql_elements ::
  "(string list \<Rightarrow> string list) \<Rightarrow> int \<Rightarrow> string \<Rightarrow> string \<Rightarrow> graphql_element list" where
  "extract_graphql_elements set_list max_fields src ident =
     (let elements = [];
          elements =
            (case re_search_decl ''query'' src of
               Some nm \<Rightarrow>
                 (let flds = extract_fields set_list max_fields src;
                      params = extract_parameters set_list src
                  in elements @
                     [\<lparr> el_document_id = ident, element_type = ''query'', name = nm,
                        el_fields = flds, el_parameters = params,
                        return_type = None, el_description = None,
                        el_searchable_text =
                          ''query '' @ nm @ '' '' @ py_join '' '' flds @ '' ''
                            @ py_join '' '' params \<rparr>])
             | None \<Rightarrow> elements);
          elements =
            (case re_search_decl ''mutation'' src of
               Some nm \<Rightarrow>
                 (let flds = extract_fields set_list max_fields src;
                      params = extract_parameters set_list src
                  in elements @
                     [\<lparr> el_document_id = ident, element_type = ''mutation'', name = nm,
                        el_fields = flds, el_parameters = params,
                        return_type = None, el_description = None,
                        el_searchable_text =
                          ''mutation '' @ nm @ '' '' @ py_join '' '' flds @ '' ''
                            @ py_join '' '' params \<rparr>])
             | None \<Rightarrow> elements);
          elements =
            (case re_search_decl ''type'' src of
               Some nm \<Rightarrow>
                 (let flds = extract_fields set_list max_fields src
                  in elements @
                     [\<lparr> el_document_id = ident, element_type = ''type'', name = nm,
                        el_fields = flds, el_parameters = [],
                        return_type = None, el_description = None,
                        el_searchable_text =
                          ''type '' @ nm @ '' '' @ py_join '' '' flds \<rparr>])
             | None \<Rightarrow> elements);
          elements =
            (case re_search_decl ''interface'' src of
               Some nm \<Rightarrow>
                 (let flds = extract_fields set_list max_fields src
                  in elements @
                     [\<lparr> el_document_id = ident, element_type = ''interface'', name = nm,
                        el_fields = flds, el_parameters = [],
                        return_type = None, el_description = None,
                        el_searchable_text =
                          ''interface '' @ nm @ '' '' @ py_join '' '' flds \<rparr>])
             | None \<Rightarrow> elements)
      in elements)"

subsection \<open>The whole corpus\<close>

definition graphql_elements_of ::
  "(string list \<Rightarrow> string list) \<Rightarrow> int \<Rightarrow> string \<Rightarrow> code_block list \<Rightarrow> graphql_element list" where
  \<comment> \<open>the inner \<^verbatim>\<open>for block in code_blocks\<close> loop of \<^verbatim>\<open>parse_all\<close>\<close>
  "graphql_elements_of set_list max_fields ident blocks =
     concat (map (\<lambda>block. extract_graphql_elements set_list max_fields (code block) ident)
                 (filter (\<lambda>block. language block = ''graphql'') blocks))"

fun parse_files ::
  "(string \<Rightarrow> string) \<Rightarrow> (string list \<Rightarrow> string list) \<Rightarrow> int \<Rightarrow> md_file list
     \<Rightarrow> document list \<times> code_block list \<times> graphql_element list" where
  \<comment> \<open>the \<^verbatim>\<open>for file_path in files\<close> loop of \<^verbatim>\<open>parse_all\<close>: a file whose
      parsing raises is skipped; a document whose code blocks raise stays in the list\<close>
  "parse_files sha256 set_list max_fields [] = ([], [], [])"
| "parse_files sha256 set_list max_fields (f # fs) =
     (case parse_files sha256 set_list max_fields fs of
        (documents, all_code_blocks, all_graphql_elements) \<Rightarrow>
          (case parse_file sha256 f of
             Inl e \<Rightarrow> (documents, all_code_blocks, all_graphql_elements)
           | Inr doc \<Rightarrow>
               (case extract_code_blocks (content_md doc) (doc_id doc) of
                  Inl e \<Rightarrow> (doc # documents, all_code_blocks, all_graphql_elements)
                | Inr blocks \<Rightarrow>
                    (doc # documents,
                     blocks @ all_code_blocks,
                     graphql_elements_of set_list max_fields (doc_id doc) blocks
                       @ all_graphql_elements))))"

section \<open>Configuration (config.py)\<close>

record config =
  DB_TOP_K :: int
  MAX_FIELDS_PER_ELEMENT :: int
  MAX_CODE_PREVIEW_LENGTH :: int

definition SEARCH_RESULT_MULTIPLIER :: int where
  "SEARCH_RESULT_MULTIPLIER = 2"

definition default_config :: config where
  \<comment> \<open>the values taken when the environment sets none\<close>
  "default_config =
     \<lparr> DB_TOP_K = 5, MAX_FIELDS_PER_ELEMENT = 20, MAX_CODE_PREVIEW_LENGTH = 400 \<rparr>"

section \<open>Index store and ingestion (ingest.py)\<close>

text \<open>
  The store is the SQLite database: each table is absent (\<^term>\<open>None\<close>) or holds its rows
  in scan order. A row of \<^verbatim>\<open>documents\<close> is given by the document it was written
  from: the columns \<^verbatim>\<open>keywords_json\<close> and \<^verbatim>\<open>headers_json\<close> hold
  \<^verbatim>\<open>json.dumps\<close> of the two lists and \<^verbatim>\<open>json.loads\<close> reads the lists back,
  \<^verbatim>\<open>last_modified\<close> holds the ISO text of the time stamp. The automatic integer keys
  of the other two tables are left out. The metadata table is keyed by its \<^verbatim>\<open>key\<close>
  column.
\<close>

record metadata_row =
  docs_directory_mtime :: string
  total_files :: int
  ingestion_time :: string

record store =
  metadata_table :: "(string \<times> metadata_row) list option"
  documents_table :: "document list option"
  code_blocks_table :: "code_block list option"
  graphql_elements_table :: "graphql_element list option"
  documents_fts :: bool
  graphql_elements_fts :: bool

definition table_names :: "store \<Rightarrow> string list" where
  "table_names db =
     (if metadata_table db \<noteq> None then [''metadata''] else [])
     @ (if documents_table db \<noteq> None then [''documents''] else [])
     @ (if code_blocks_table db \<noteq> None then [''code_blocks''] else [])
     @ (if graphql_elements_table db \<noteq> None then [''graphql_elements''] else [])
     @ (if documents_fts db then [''documents_fts''] else [])
     @ (if graphql_elements_fts db then [''graphql_elements_fts''] else [])"

definition rows_of :: "'a list option \<Rightarrow> 'a list" where
  "rows_of t = (case t of None \<Rightarrow> [] | Some rows \<Rightarrow> rows)"

record filesystem =
  root_exists :: bool
  md_files :: "md_file list"

text \<open>
  Every call into the database or the file system may raise. Which calls do so in a run
  is given by a function from the call to the exception it raises, if any; a call that
  raises leaves the store as it was.
\<close>

datatype call =
    CreateTable string
  | CreateIndex string string
  | EnableFts string
  | WalkDirectory
  | DeleteWhere string
  | InsertAll string
  | Upsert string

record runtime =
  faults :: "call \<Rightarrow> error option"
  sha256_hex :: "string \<Rightarrow> string"
  set_iteration :: "string list \<Rightarrow> string list"
  isoformat :: "int \<Rightarrow> string"
  now :: int
  cfg :: config

type_synonym 'a io = "store \<Rightarrow> (error + 'a) \<times> store"

definition db_call :: "runtime \<Rightarrow> call \<Rightarrow> (store \<Rightarrow> store) \<Rightarrow> unit io" where
  "db_call rt c effect db =
     (case faults rt c of
        Some e \<Rightarrow> (Inl e, db)
      | None \<Rightarrow> (Inr (), effect db))"

definition and_then :: "unit io \<Rightarrow> unit io \<Rightarrow> unit io" where
  \<comment> \<open>one statement after another: an exception of the first skips the second\<close>
  "and_then m k db =
     (case m db of
        (Inl e, db') \<Rightarrow> (Inl e, db')
      | (Inr u, db') \<Rightarrow> k db')"

definition when_do :: "(store \<Rightarrow> bool) \<Rightarrow> unit io \<Rightarrow> unit io" where
  "when_do c m db = (if c db then m db else (Inr (), db))"

definition latest_mtime :: "filesystem \<Rightarrow> int" where
  \<comment> \<open>\<^verbatim>\<open>max((f.stat().st_mtime for f in docs_dir.rglob("*.md")), default=0)\<close>\<close>
  "latest_mtime fs =
     (case map st_mtime (md_files fs) of
        [] \<Rightarrow> 0
      | t # ts \<Rightarrow> fold max ts t)"

definition should_reingest :: "runtime \<Rightarrow> filesystem \<Rightarrow> store \<Rightarrow> bool" where
  "should_reingest rt fs db =
     (if \<not> root_exists fs then False
      else (let latest_mtime_iso = isoformat rt (latest_mtime fs)
            in if ''metadata'' \<notin> set (table_names db) then True
               else (case map_of (rows_of (metadata_table db)) ''last_ingestion'' of
                       None \<Rightarrow> True
                     | Some row \<Rightarrow>
                         if docs_directory_mtime row = latest_mtime_iso then False
                         else True)))"

definition create_tables :: "runtime \<Rightarrow> unit io" where
  "create_tables rt =
     and_then
       (when_do (\<lambda>db. ''metadata'' \<notin> set (table_names db))
          (db_call rt (CreateTable ''metadata'') (\<lambda>db. db\<lparr>metadata_table := Some []\<rparr>)))
    (and_then
       (when_do (\<lambda>db. ''documents'' \<notin> set (table_names db))
          (and_then (db_call rt (CreateTable ''documents'')
                       (\<lambda>db. db\<lparr>documents_table := Some []\<rparr>))
          (and_then (db_call rt (CreateIndex ''documents'' ''category'') id)
          (and_then (db_call rt (CreateIndex ''documents'' ''subcategory'') id)
                    (db_call rt (CreateIndex ''documents'' ''content_type'') id)))))
    (and_then
       (when_do (\<lambda>db. ''code_blocks'' \<notin> set (table_names db))
          (and_then (db_call rt (CreateTable ''code_blocks'')
                       (\<lambda>db. db\<lparr>code_blocks_table := Some []\<rparr>))
          (and_then (db_call rt (CreateIndex ''code_blocks'' ''document_id'') id)
                    (db_call rt (CreateIndex ''code_blocks'' ''language'') id))))
    (and_then
       (when_do (\<lambda>db. ''graphql_elements'' \<notin> set (table_names db))
          (and_then (db_call rt (CreateTable ''graphql_elements'')
                       (\<lambda>db. db\<lparr>graphql_elements_table := Some []\<rparr>))
          (and_then (db_call rt (CreateIndex ''graphql_elements'' ''document_id'') id)
          (and_then (db_call rt (CreateIndex ''graphql_elements'' ''element_type'') id)
                    (db_call rt (CreateIndex ''graphql_elements'' ''name'') id)))))
    (and_then
       (when_do (\<lambda>db. ''documents_fts'' \<notin> set (table_names db))
          (db_call rt (EnableFts ''documents'') (\<lambda>db. db\<lparr>documents_fts := True\<rparr>)))
       (when_do (\<lambda>db. ''graphql_elements_fts'' \<notin> set (table_names db))
          (db_call rt (EnableFts ''graphql_elements'')
             (\<lambda>db. db\<lparr>graphql_elements_fts := True\<rparr>)))))))"

definition walk_directory :: "runtime \<Rightarrow> filesystem \<Rightarrow> error + md_file list" where
  "walk_directory rt fs =
     (case faults rt WalkDirectory of
        Some e \<Rightarrow> Inl e
      | None \<Rightarrow> Inr (md_files fs))"

definition parse_all ::
  "runtime \<Rightarrow> filesystem \<Rightarrow> error + (document list \<times> code_block list \<times> graphql_element list)" where
  "parse_all rt fs =
     (case walk_directory rt fs of
        Inl e \<Rightarrow> Inl e
      | Inr files \<Rightarrow>
          Inr (parse_files (sha256_hex rt) (set_iteration rt) (MAX_FIELDS_PER_ELEMENT (cfg rt)) files))"

definition insert_documents :: "runtime \<Rightarrow> document list \<Rightarrow> unit io" where
  \<comment> \<open>\<^verbatim>\<open>db["documents"].insert_all(doc_records)\<close>; \<^verbatim>\<open>id\<close> is the primary key\<close>
  "insert_documents rt docs db =
     (if \<not> distinct (map doc_id (rows_of (documents_table db) @ docs))
      then (Inl IntegrityError, db)
      else db_call rt (InsertAll ''documents'')
             (\<lambda>db. db\<lparr>documents_table := Some (rows_of (documents_table db) @ docs)\<rparr>) db)"

definition ingest_data :: "runtime \<Rightarrow> filesystem \<Rightarrow> unit io" where
  "ingest_data rt fs db =
     (case parse_all rt fs of
        Inl e \<Rightarrow> (Inl e, db)
      | Inr (documents, code_blocks, graphql_elements) \<Rightarrow>
          (and_then (db_call rt (DeleteWhere ''code_blocks'')
                       (\<lambda>db. db\<lparr>code_blocks_table := map_option (\<lambda>rows. []) (code_blocks_table db)\<rparr>))
          (and_then (db_call rt (DeleteWhere ''graphql_elements'')
                       (\<lambda>db. db\<lparr>graphql_elements_table :=
                                  map_option (\<lambda>rows. []) (graphql_elements_table db)\<rparr>))
          (and_then (db_call rt (DeleteWhere ''documents'')
                       (\<lambda>db. db\<lparr>documents_table := map_option (\<lambda>rows. []) (documents_table db)\<rparr>))
          (and_then (when_do (\<lambda>db. documents \<noteq> []) (insert_documents rt documents))
          (and_then (when_do (\<lambda>db. code_blocks \<noteq> [])
                       (db_call rt (InsertAll ''code_blocks'')
                          (\<lambda>db. db\<lparr>code_blocks_table :=
                                     Some (rows_of (code_blocks_table db) @ code_blocks)\<rparr>)))
                    (when_do (\<lambda>db. graphql_elements \<noteq> [])
                       (db_call rt (InsertAll ''graphql_elements'')
                          (\<lambda>db. db\<lparr>graphql_elements_table :=
                                     Some (rows_of (graphql_elements_table db)
                                             @ graphql_elements)\<rparr>)))))))) db)"

definition update_metadata :: "runtime \<Rightarrow> filesystem \<Rightarrow> int \<Rightarrow> unit io" where
  "update_metadata rt fs n =
     (let latest_mtime_iso = isoformat rt (latest_mtime fs)
      in db_call rt (Upsert ''metadata'')
           (\<lambda>db. db\<lparr>metadata_table :=
                      Some (AList.update ''last_ingestion''
                              \<lparr> docs_directory_mtime = latest_mtime_iso,
                                total_files = n,
                                ingestion_time = isoformat rt (now rt) \<rparr>
                              (rows_of (metadata_table db)))\<rparr>))"

datatype outcome = Skipped | Complete | CannotIngest

definition ingest_graphql_docs :: "runtime \<Rightarrow> filesystem \<Rightarrow> outcome io" where
  \<comment> \<open>The value returned says which of the three ways of returning was taken (the
      function logs a different line on each). \<^term>\<open>Inl\<close> is an exception that leaves
      the function.\<close>
  "ingest_graphql_docs rt fs db =
     (if \<not> should_reingest rt fs db then (Inr Skipped, db)
      else (case create_tables rt db of
              (Inl e, db1) \<Rightarrow> (Inl e, db1)
            | (Inr u, db1) \<Rightarrow>
                if \<not> root_exists fs then (Inl FileNotFoundError, db1)
                else (case (case walk_directory rt fs of
                              Inl e \<Rightarrow> (Inl e, db1)
                            | Inr files \<Rightarrow>
                                and_then (ingest_data rt fs)
                                         (update_metadata rt fs (int (length files))) db1) of
                        (Inl FileNotFoundError, db2) \<Rightarrow> (Inr CannotIngest, db2)
                      | (Inl e, db2) \<Rightarrow> (Inl e, db2)
                      | (Inr u, db2) \<Rightarrow> (Inr Complete, db2))))"

section \<open>Query layer (server.py)\<close>

subsection \<open>SQL and JSON\<close>

definition sql_limit :: "int \<Rightarrow> 'a list \<Rightarrow> 'a list" where
  \<comment> \<open>\<^verbatim>\<open>LIMIT n\<close>: a negative bound is no bound\<close>
  "sql_limit n rows = (if n < 0 then rows else take (nat n) rows)"

definition sql_eq :: "string option \<Rightarrow> string option \<Rightarrow> bool" where
  \<comment> \<open>\<^verbatim>\<open>a = b\<close> in a \<^verbatim>\<open>WHERE\<close> clause; \<^term>\<open>None\<close> is \<^verbatim>\<open>NULL\<close>, and a
      comparison with it selects no row\<close>
  "sql_eq a b = (case (a, b) of (Some x, Some y) \<Rightarrow> x = y | _ \<Rightarrow> False)"

definition ascii_upper :: "char \<Rightarrow> char" where
  "ascii_upper c =
     (let n = (of_char c :: nat) in if 97 \<le> n \<and> n \<le> 122 then char_of (n - 32) else c)"

fun sql_like :: "string \<Rightarrow> string \<Rightarrow> bool" where
  \<comment> \<open>\<^verbatim>\<open>text LIKE pattern\<close>, pattern first: \<^verbatim>\<open>%\<close> is any run of characters,
      \<^verbatim>\<open>_\<close> any one character, ASCII letters compare without case\<close>
  "sql_like [] t = (t = [])"
| "sql_like (p # ps) t =
     (if p = CHR ''%''
      then (sql_like ps t \<or> (case t of [] \<Rightarrow> False | c # ts \<Rightarrow> sql_like (p # ps) ts))
      else (case t of
              [] \<Rightarrow> False
            | c # ts \<Rightarrow> (p = CHR ''_'' \<or> ascii_upper p = ascii_upper c) \<and> sql_like ps ts))"

definition hex_digit :: "nat \<Rightarrow> char" where
  "hex_digit n = ''0123456789abcdef'' ! (n mod 16)"

definition json_escape :: "char \<Rightarrow> string" where
  \<comment> \<open>one character inside a JSON string, as \<^verbatim>\<open>json.dumps\<close> writes it\<close>
  "json_escape c =
     (let n = (of_char c :: nat)
      in if n = 34 then [CHR 0x5C, CHR 0x22]
         else if n = 92 then [CHR 0x5C, CHR 0x5C]
         else if n = 10 then [CHR 0x5C, CHR ''n'']
         else if n = 13 then [CHR 0x5C, CHR ''r'']
         else if n = 9 then [CHR 0x5C, CHR ''t'']
         else if n = 8 then [CHR 0x5C, CHR ''b'']
         else if n = 12 then [CHR 0x5C, CHR ''f'']
         else if n < 32 \<or> 126 < n
         then [CHR 0x5C, CHR ''u'', CHR ''0'', CHR ''0'', hex_digit (n div 16), hex_digit n]
         else [c])"

definition json_dumps :: "string list \<Rightarrow> string" where
  \<comment> \<open>\<^verbatim>\<open>json.dumps\<close> of a list of strings\<close>
  "json_dumps xs =
     ''['' @ py_join '', '' (map (\<lambda>x. [CHR 0x22] @ concat (map json_escape x) @ [CHR 0x22]) xs)
       @ '']''"

definition py_str :: "string option \<Rightarrow> string" where
  \<comment> \<open>an optional string inside an f-string\<close>
  "py_str v = (case v of None \<Rightarrow> ''None'' | Some s \<Rightarrow> s)"

definition select_by_file_path :: "store \<Rightarrow> string \<Rightarrow> error + document option" where
  \<comment> \<open>the first row of \<^verbatim>\<open>SELECT * FROM documents WHERE file_path = ?\<close>;
      \<^term>\<open>Inr None\<close> is \<^verbatim>\<open>StopIteration\<close>, \<^term>\<open>Inl\<close> a missing table\<close>
  "select_by_file_path db path =
     (case documents_table db of
        None \<Rightarrow> Inl DatabaseError
      | Some rows \<Rightarrow> Inr (find (\<lambda>d. file_path d = path) rows))"

subsection \<open>Keyword search\<close>

text \<open>
  The full-text engine is SQLite's: it is given as a function from the rows of the table
  and the match expression to the matching rows in rank order, or to the error of a
  malformed expression.
\<close>

type_synonym engine = "document list \<Rightarrow> string \<Rightarrow> error + document list"

definition fts_search :: "engine \<Rightarrow> store \<Rightarrow> string \<Rightarrow> int \<Rightarrow> error + document list" where
  \<comment> \<open>\<^verbatim>\<open>list(db["documents"].search(q, limit=n))\<close>\<close>
  "fts_search fts db q n =
     (case documents_table db of
        None \<Rightarrow> Inl DatabaseError
      | Some rows \<Rightarrow>
          if \<not> documents_fts db then Inl DatabaseError
          else (case fts rows q of
                  Inl e \<Rightarrow> Inl e
                | Inr hits \<Rightarrow> Inr (sql_limit n hits)))"

definition search_results ::
  "engine \<Rightarrow> config \<Rightarrow> store \<Rightarrow> string list \<Rightarrow> string option \<Rightarrow> string option \<Rightarrow> string option
     \<Rightarrow> error + document list" where
  \<comment> \<open>the list \<^verbatim>\<open>results\<close> of \<^verbatim>\<open>search_documentation\<close> after the final slice\<close>
  "search_results fts c db queries cat subcat ctype =
     (let combined_query = py_join '' OR '' (map (\<lambda>q. ''('' @ q @ '')'') queries)
      in case fts_search fts db combined_query (DB_TOP_K c * SEARCH_RESULT_MULTIPLIER) of
           Inl e \<Rightarrow> Inl e
         | Inr results \<Rightarrow>
             (let results =
                    (case cat of
                       Some v \<Rightarrow>
                         if truthy v then filter (\<lambda>r. category r = v) results else results
                     | None \<Rightarrow> results);
                  results =
                    (case subcat of
                       Some v \<Rightarrow>
                         if truthy v then filter (\<lambda>r. subcategory r = Some v) results
                         else results
                     | None \<Rightarrow> results);
                  results =
                    (case ctype of
                       Some v \<Rightarrow>
                         if truthy v then filter (\<lambda>r. content_type r = v) results
                         else results
                     | None \<Rightarrow> results);
                  results = py_take (DB_TOP_K c) results
              in Inr results))"

definition format_search_result :: "document \<Rightarrow> string" where
  "format_search_result doc =
     (let excerpt = (case description doc of
                       Some d \<Rightarrow> if truthy d then d else take 200 (content_md doc)
                     | None \<Rightarrow> take 200 (content_md doc))
      in ''### '' @ title doc @ [newline]
         @ ''**Path:** '' @ file_path doc @ [newline]
         @ ''**Category:** '' @ category doc @ ''/'' @ py_str (subcategory doc) @ [newline]
         @ ''**Type:** '' @ content_type doc @ [newline]
         @ ''**Description:** '' @ excerpt @ ''...'' @ [newline])"

definition search_documentation ::
  "engine \<Rightarrow> config \<Rightarrow> store \<Rightarrow> string list \<Rightarrow> string option \<Rightarrow> string option \<Rightarrow> string option
     \<Rightarrow> error + string" where
  "search_documentation fts c db queries cat subcat ctype =
     (case search_results fts c db queries cat subcat ctype of
        Inl e \<Rightarrow> Inl e
      | Inr results \<Rightarrow>
          if results = [] then Inr ''No matching documentation found.''
          else Inr (py_join ([newline] @ ''---'' @ [newline, newline])
                      (map format_search_result results)))"

subsection \<open>Exact document fetch\<close>

definition get_document :: "store \<Rightarrow> string \<Rightarrow> error + string" where
  "get_document db path =
     (case select_by_file_path db path of
        Inl e \<Rightarrow> Inl e
      | Inr None \<Rightarrow>
          Inr (''Document not found: '' @ path @ [newline, newline]
               @ ''Tip: Use search_documentation to find the correct file path.'')
      | Inr (Some doc) \<Rightarrow>
          (let kws = doc_keywords doc;
               keywords_str = (if kws \<noteq> [] then py_join '', '' kws else ''None'');
               lines = [''# '' @ title doc,
                        [],
                        ''**Path:** '' @ file_path doc,
                        ''**Category:** '' @ category doc @ ''/'' @ py_str (subcategory doc),
                        ''**Type:** '' @ content_type doc,
                        ''**Keywords:** '' @ keywords_str,
                        []];
               lines = (case description doc of
                          Some d \<Rightarrow>
                            if truthy d then lines @ [''**Description:** '' @ d, []] else lines
                        | None \<Rightarrow> lines);
               lines = lines @ [''---'', [], content_md doc]
           in Inr (py_join [newline] lines)))"

subsection \<open>Related-document discovery\<close>

definition related_by_category :: "document list \<Rightarrow> document \<Rightarrow> string \<Rightarrow> document list" where
  \<comment> \<open>\<^verbatim>\<open>WHERE category = ? AND subcategory = ? AND file_path != ? LIMIT 5\<close>\<close>
  "related_by_category rows source_doc path =
     take 5 (filter (\<lambda>d. sql_eq (Some (category d)) (Some (category source_doc))
                          \<and> sql_eq (subcategory d) (subcategory source_doc)
                          \<and> file_path d \<noteq> path) rows)"

definition keyword_matches :: "document list \<Rightarrow> string \<Rightarrow> string \<Rightarrow> document list" where
  \<comment> \<open>\<^verbatim>\<open>WHERE keywords_json LIKE ? AND file_path != ? LIMIT 3\<close> with the pattern
      \<^verbatim>\<open>%keyword%\<close>\<close>
  "keyword_matches rows keyword path =
     take 3 (filter (\<lambda>d. sql_like (''%'' @ keyword @ ''%'') (json_dumps (doc_keywords d))
                          \<and> file_path d \<noteq> path) rows)"

definition related_by_keywords ::
  "(string list \<Rightarrow> string list) \<Rightarrow> document list \<Rightarrow> document \<Rightarrow> string \<Rightarrow> document list" where
  "related_by_keywords set_list rows source_doc path =
     (let source_keywords = set_list (doc_keywords source_doc)
      in if source_keywords \<noteq> []
         then concat (map (\<lambda>keyword. keyword_matches rows keyword path)
                          (take 3 source_keywords))
         else [])"

fun dedup_by_path :: "string list \<Rightarrow> document list \<Rightarrow> document list" where
  \<comment> \<open>the deduplication loop; the first argument is \<^verbatim>\<open>seen\<close>\<close>
  "dedup_by_path seen [] = []"
| "dedup_by_path seen (doc # docs) =
     (if file_path doc \<notin> set seen then doc # dedup_by_path (file_path doc # seen) docs
      else dedup_by_path seen docs)"

definition all_related ::
  "(string list \<Rightarrow> string list) \<Rightarrow> document list \<Rightarrow> document \<Rightarrow> string \<Rightarrow> document list" where
  "all_related set_list rows source_doc path =
     take 5 (dedup_by_path []
               (related_by_category rows source_doc path
                  @ related_by_keywords set_list rows source_doc path))"

definition relationship :: "document \<Rightarrow> document \<Rightarrow> string" where
  "relationship source_doc doc =
     (if category doc = category source_doc then ''Same category'' else ''Similar content'')"

definition related_lines :: "document \<Rightarrow> document \<Rightarrow> string list" where
  "related_lines source_doc doc =
     [''### '' @ title doc,
      ''**Path:** '' @ file_path doc,
      ''**Relationship:** '' @ relationship source_doc doc,
      ''**Category:** '' @ category doc @ ''/'' @ py_str (subcategory doc)]
     @ (case description doc of
          Some d \<Rightarrow> if truthy d then [''**Description:** '' @ take 150 d @ ''...''] else []
        | None \<Rightarrow> [])
     @ [[]]"

definition get_related_documents ::
  "(string list \<Rightarrow> string list) \<Rightarrow> store \<Rightarrow> string \<Rightarrow> error + string" where
  "get_related_documents set_list db path =
     (case select_by_file_path db path of
        Inl e \<Rightarrow> Inl e
      | Inr None \<Rightarrow> Inr (''Document not found: '' @ path)
      | Inr (Some source_doc) \<Rightarrow>
          (let related = all_related set_list (rows_of (documents_table db)) source_doc path
           in if related = [] then Inr (''No related documents found for: '' @ path)
              else Inr (py_join [newline]
                          ([''# Related Documents for: '' @ title source_doc, []]
                           @ concat (map (related_lines source_doc) related)))))"

section \<open>Observations of the store\<close>

definition last_ingestion_record :: "store \<Rightarrow> metadata_row option" where
  \<comment> \<open>\<^verbatim>\<open>db["metadata"].get("last_ingestion")\<close>, \<^term>\<open>None\<close> when there is no such row\<close>
  "last_ingestion_record db = map_of (rows_of (metadata_table db)) ''last_ingestion''"

definition entity_counts :: "store \<Rightarrow> nat \<times> nat \<times> nat" where
  "entity_counts db =
     (length (rows_of (documents_table db)),
      length (rows_of (code_blocks_table db)),
      length (rows_of (graphql_elements_table db)))"

definition keeps :: "(store \<Rightarrow> 'b) \<Rightarrow> 'a io \<Rightarrow> bool" where
  \<comment> \<open>the action never changes the observation of the store\<close>
  "keeps obs m = (\<forall>db. obs (snd (m db)) = obs db)"

section \<open>Example corpora\<close>

definition example_document ::
  "string \<Rightarrow> string \<Rightarrow> string option \<Rightarrow> string list \<Rightarrow> document" where
  "example_document path cat subcat kws =
     \<lparr> doc_id = path, file_path = path, title = path, description = None,
       doc_keywords = kws, category = cat, subcategory = subcat,
       content_type = determine_content_type cat path, searchable_text = path,
       headers = [], last_modified = 0, content_md = [] \<rparr>"

definition example_rows :: "document list" where
  "example_rows =
     [example_document ''schema/products/a.md'' ''schema'' (Some ''products'') [''cart''],
      example_document ''schema/products/s.md'' ''schema'' (Some ''products'') [''cart''],
      example_document ''schema/cart/b.md'' ''schema'' (Some ''cart'') [''cart''],
      example_document ''usage/c.md'' ''usage'' None [''cart'', ''checkout'']]"

definition example_store :: store where
  "example_store =
     \<lparr> metadata_table = Some [], documents_table = Some example_rows,
       code_blocks_table = Some [], graphql_elements_table = Some [],
       documents_fts = True, graphql_elements_fts = True \<rparr>"

definition all_rows_match :: engine where
  "all_rows_match rows q = Inr rows"

definition products_query :: string where
  "products_query = ''query products { items { sku name } }''"

definition products_body :: string where
  "products_body = fence @ ''graphql'' @ [newline] @ products_query @ [newline] @ fence"

definition products_file :: md_file where
  "products_file =
     \<lparr> rel_parts = [''schema'', ''products'', ''queries'', ''products.md''],
       st_mtime = 1700000000,
       loaded = Inr \<lparr> metadata = [(''title'', YStr ''Products Query'')],
                      content = products_body \<rparr> \<rparr>"

definition products_document :: "(string \<Rightarrow> string) \<Rightarrow> document" where
  "products_document h =
     \<lparr> doc_id = h ''schema/products/queries/products.md'',
       file_path = ''schema/products/queries/products.md'',
       title = ''Products Query'',
       description = None,
       doc_keywords = [],
       category = ''schema'',
       subcategory = Some ''products'',
       content_type = ''schema'',
       searchable_text = ''Products Query'',
       headers = [],
       last_modified = 1700000000,
       content_md = products_body \<rparr>"

definition products_block :: "(string \<Rightarrow> string) \<Rightarrow> code_block" where
  "products_block h =
     \<lparr> cb_document_id = h ''schema/products/queries/products.md'',
       language = ''graphql'',
       code = products_query,
       cb_context = Some (fence @ ''graphql''),
       line_number = 2 \<rparr>"

definition example_hash :: "string \<Rightarrow> string" where
  \<comment> \<open>a stand-in for SHA-256 in the examples\<close>
  "example_hash p = ''sha256:'' @ p"

definition example_runtime :: runtime where
  "example_runtime =
     \<lparr> faults = (\<lambda>c. None),
       sha256_hex = example_hash,
       set_iteration = remdups,
       isoformat = (\<lambda>t. if t = 1700000000 then ''2023-11-14T22:13:20+00:00''
                          else if t = 0 then ''1970-01-01T00:00:00+00:00''
                          else ''2024-01-01T00:00:00+00:00''),
       now = 1704067200,
       cfg = default_config \<rparr>"

definition products_filesystem :: filesystem where
  "products_filesystem = \<lparr> root_exists = True, md_files = [products_file] \<rparr>"

definition empty_store :: store where
  "empty_store =
     \<lparr> metadata_table = None, documents_table = None, code_blocks_table = None,
       graphql_elements_table = None, documents_fts = False, graphql_elements_fts = False \<rparr>"

definition stale_store :: store where
  \<comment> \<open>the example store after an earlier ingestion of files that have changed since\<close>
  "stale_store =
     example_store
       \<lparr> metadata_table :=
           Some [(''last_ingestion'',
                  \<lparr> docs_directory_mtime = ''1970-01-01T00:00:00+00:00'',
                    total_files = 4,
                    ingestion_time = ''2024-01-01T00:00:00+00:00'' \<rparr>)] \<rparr>"

definition failing_runtime :: runtime where
  \<comment> \<open>a run in which the bulk insertion of the documents raises\<close>
  "failing_runtime =
     example_runtime
       \<lparr> faults := (\<lambda>c. if c = InsertAll ''documents'' then Some DatabaseError else None) \<rparr>"

definition missing_root :: filesystem where
  "missing_root = \<lparr> root_exists = False, md_files = [] \<rparr>"

section \<open>Properties of the query layer\<close>

lemma contains_iff_sublist: "contains needle s \<longleftrightarrow> sublist needle s"
  by (induction s) (simp_all add: sublist_Cons_right)

lemma contains_middle: "contains needle (before @ needle @ rest)"
  by (simp add: contains_iff_sublist)

lemma set_py_take_subset: "set (py_take k xs) \<subseteq> set xs"
  by (auto simp: py_take_def dest: in_set_takeD)

lemma in_set_py_takeD: "x \<in> set (py_take k xs) \<Longrightarrow> x \<in> set xs"
  using set_py_take_subset [of k xs] by auto

lemma length_py_take: "0 \<le> k \<Longrightarrow> int (length (py_take k xs)) \<le> k"
  by (simp add: py_take_def)

lemma dedup_not_seen: "d \<in> set (dedup_by_path seen docs) \<Longrightarrow> file_path d \<notin> set seen"
proof (induction docs arbitrary: seen)
  case Nil
  then show ?case by simp
next
  case (Cons x docs)
  show ?case
  proof (cases "file_path x \<in> set seen")
    case True
    with Cons.prems Cons.IH [of seen] show ?thesis by simp
  next
    case False
    with Cons.prems have "d = x \<or> d \<in> set (dedup_by_path (file_path x # seen) docs)"
      by simp
    then show ?thesis
    proof
      assume "d = x"
      with False show ?thesis by simp
    next
      assume "d \<in> set (dedup_by_path (file_path x # seen) docs)"
      from Cons.IH [OF this] show ?thesis by simp
    qed
  qed
qed

lemma dedup_subset: "set (dedup_by_path seen docs) \<subseteq> set docs"
  by (induction docs arbitrary: seen) auto

lemma dedup_distinct: "distinct (map file_path (dedup_by_path seen docs))"
  by (induction docs arbitrary: seen) (auto dest: dedup_not_seen)

lemma dedup_subseq: "subseq (dedup_by_path seen docs) docs"
  by (induction docs arbitrary: seen) auto

lemma dedup_first_seen:
  "d \<in> set (dedup_by_path seen docs) \<Longrightarrow> find (\<lambda>x. file_path x = file_path d) docs = Some d"
proof (induction docs arbitrary: seen)
  case Nil
  then show ?case by simp
next
  case (Cons x docs)
  show ?case
  proof (cases "file_path x \<in> set seen")
    case True
    with Cons.prems have d: "d \<in> set (dedup_by_path seen docs)" by simp
    from dedup_not_seen [OF d] True have "file_path x \<noteq> file_path d" by auto
    with Cons.IH [OF d] show ?thesis by simp
  next
    case False
    show ?thesis
    proof (cases "d = x")
      case True
      then show ?thesis by simp
    next
      case neq: False
      with Cons.prems False have d: "d \<in> set (dedup_by_path (file_path x # seen) docs)"
        by simp
      from dedup_not_seen [OF d] have "file_path x \<noteq> file_path d" by auto
      with Cons.IH [OF d] show ?thesis by simp
    qed
  qed
qed

lemma related_by_category_not_source:
  "d \<in> set (related_by_category rows src p) \<Longrightarrow> file_path d \<noteq> p"
  by (auto simp: related_by_category_def dest: in_set_takeD)

lemma keyword_matches_not_source:
  "d \<in> set (keyword_matches rows kw p) \<Longrightarrow> file_path d \<noteq> p"
  by (auto simp: keyword_matches_def dest: in_set_takeD)

lemma related_by_keywords_not_source:
  "d \<in> set (related_by_keywords sl rows src p) \<Longrightarrow> file_path d \<noteq> p"
  by (auto simp: related_by_keywords_def Let_def split: if_splits
           dest: keyword_matches_not_source)

lemma all_related_subset:
  "set (all_related sl rows src p)
     \<subseteq> set (related_by_category rows src p) \<union> set (related_by_keywords sl rows src p)"
proof -
  have "set (all_related sl rows src p)
          \<subseteq> set (dedup_by_path [] (related_by_category rows src p
                                       @ related_by_keywords sl rows src p))"
    unfolding all_related_def by (rule set_take_subset)
  also have "\<dots> \<subseteq> set (related_by_category rows src p @ related_by_keywords sl rows src p)"
    by (rule dedup_subset)
  finally show ?thesis by simp
qed

section \<open>Properties of the parser\<close>

lemma py_join_head_prefix: "prefix x (py_join sep (x # xs))"
  by (cases xs) simp_all

lemma filter_truthy_head:
  "filter truthy (t # rest) = (if t = [] then filter truthy rest else t # filter truthy rest)"
  by (simp add: truthy_def)

lemma build_searchable_text_prefix:
  "prefix ttl (build_searchable_text ttl descr body kws hdrs)"
  unfolding build_searchable_text_def Let_def
  by (cases descr; cases "kws = []"; cases "ttl = []")
     (auto simp: truthy_def py_join_head_prefix)

lemma determine_content_type_closed:
  "determine_content_type cat rel \<in> set [''schema'', ''tutorial'', ''guide'', ''reference'']"
  by (simp add: determine_content_type_def)

lemma parse_file_fields:
  assumes "parse_file h f = Inr d"
  shows "\<exists>cat sub. extract_category_from_path (rel_parts f) = Inr (cat, sub)
           \<and> category d = cat \<and> subcategory d = sub
           \<and> content_type d = determine_content_type cat (path_str (rel_parts f))
           \<and> searchable_text d
               = build_searchable_text (title d) (description d) (content_md d)
                   (doc_keywords d) (headers d)"
  using assms
  by (auto simp: parse_file_def Let_def split: sum.splits prod.splits option.splits)

lemma products_lines:
  "py_split newline products_body = [fence @ ''graphql'', products_query, fence]"
  by (simp add: products_body_def products_query_def fence_def newline_def)

lemma clean_products_body: "clean_content products_body = []"
  by code_simp

lemma products_headers: "extract_headers products_body = []"
  by code_simp

lemma products_path: "path_str [''schema'', ''products'', ''queries'', ''products.md'']
   = ''schema/products/queries/products.md''"
  by (simp add: path_str_def)

lemma parse_products_file: "parse_file h products_file = Inr (products_document h)"
  by (simp add: parse_file_def products_file_def products_document_def products_path
        extract_category_from_path_def determine_content_type_def as_str_def
        as_optional_str_def as_str_list_def products_headers build_searchable_text_def
        clean_products_body truthy_def Let_def)

lemma products_code_blocks:
  "extract_code_blocks products_body ident =
     Inr [\<lparr> cb_document_id = ident, language = ''graphql'', code = products_query,
            cb_context = Some (fence @ ''graphql''), line_number = 2 \<rparr>]"
  by code_simp

lemma products_fields: "findall_fields False products_query = [''products'', ''items'']"
  by code_simp

lemma products_params: "findall_params products_query = []"
  by code_simp

lemma products_decls:
  "re_search_decl ''query'' products_query = Some ''products''"
  "re_search_decl ''mutation'' products_query = None"
  "re_search_decl ''type'' products_query = None"
  "re_search_decl ''interface'' products_query = None"
  by code_simp+

lemma py_take_all: "int (length xs) \<le> k \<Longrightarrow> py_take k xs = xs"
  by (simp add: py_take_def)

lemma set_order_two:
  assumes "set_order_ok sl" and "a \<noteq> b" and "2 \<le> k"
  shows "set (py_take k (sl [a, b])) = {a, b}"
proof -
  from assms(1) have s: "set (sl [a, b]) = {a, b}" and d: "distinct (sl [a, b])"
    by (auto simp: set_order_ok_def)
  from d have "length (sl [a, b]) = card (set (sl [a, b]))"
    by (simp add: distinct_card)
  with s assms(2) have "length (sl [a, b]) = 2" by simp
  with assms(3) have "py_take k (sl [a, b]) = sl [a, b]"
    by (intro py_take_all) simp
  with s show ?thesis by simp
qed

lemma set_order_empty: "set_order_ok sl \<Longrightarrow> sl [] = []"
  by (auto simp: set_order_ok_def dest: spec [of _ "[]"])

lemma products_elements:
  assumes "set_order_ok sl"
  shows "extract_graphql_elements sl k products_query ident =
     [\<lparr> el_document_id = ident, element_type = ''query'', name = ''products'',
        el_fields = py_take k (sl [''products'', ''items'']), el_parameters = [],
        return_type = None, el_description = None,
        el_searchable_text =
          ''query products '' @ py_join '' '' (py_take k (sl [''products'', ''items''])) @ '' '' \<rparr>]"
  by (simp add: extract_graphql_elements_def products_decls extract_fields_def
        extract_parameters_def products_fields products_params set_order_empty [OF assms]
        Let_def)

lemma parse_products:
  assumes "set_order_ok sl"
  shows "parse_files h sl k [products_file] =
     ([products_document h],
      [\<lparr> cb_document_id = h ''schema/products/queries/products.md'', language = ''graphql'',
         code = products_query, cb_context = Some (fence @ ''graphql''), line_number = 2 \<rparr>],
      extract_graphql_elements sl k products_query (h ''schema/products/queries/products.md''))"
  by (simp add: parse_products_file products_code_blocks graphql_elements_of_def
        products_document_def)

text \<open>
  Extraction of code blocks never raises, and the context of every block is present and
  holds a fence: the scan starts at the opening fence line, which is never blank and
  never a heading.
\<close>

lemma context_scan_extends:
  "context_scan lines idxs acc = Inr r \<Longrightarrow> \<exists>pre. r = pre @ acc"
proof (induction idxs arbitrary: acc)
  case Nil
  then show ?case by simp
next
  case (Cons i idxs)
  then show ?case
    by (fastforce simp: Let_def split: option.splits if_splits)
qed

lemma context_scan_in_range:
  "(\<And>i. i \<in> set idxs \<Longrightarrow> 0 \<le> i \<and> i < int (length lines))
     \<Longrightarrow> \<exists>r. context_scan lines idxs acc = Inr r"
proof (induction idxs arbitrary: acc)
  case Nil
  then show ?case by simp
next
  case (Cons i idxs)
  from Cons.prems [of i] have "py_index lines i = Some (lines ! nat i)"
    by (simp add: py_index_def)
  moreover have "\<exists>r. context_scan lines idxs acc' = Inr r" for acc'
    using Cons.IH Cons.prems by simp
  ultimately show ?case by (simp add: Let_def)
qed

lemma fence_line_kept:
  "startswith line fence \<Longrightarrow> truthy line \<and> \<not> startswith line ''#''"
  by (cases line) (auto simp: startswith_def truthy_def fence_def)

lemma py_join_snoc_suffix: "suffix x (py_join sep (pre @ [x]))"
  by (induction sep pre rule: py_join.induct) (auto simp: suffix_append)

lemma context_of_fence_line:
  assumes "i < length lines" and "startswith (py_strip (lines ! i)) fence"
  shows "\<exists>s. extract_context lines (int i) = Inr (Some s) \<and> suffix (py_strip (lines ! i)) s"
proof -
  let ?rest = "map (\<lambda>k. int i - int k) [1..<nat (int i - max (- 1) (int i - 5))]"
  have "[0..<nat (int i - max (- 1) (int i - 5))] = 0 # [1..<nat (int i - max (- 1) (int i - 5))]"
    by (simp add: upt_conv_Cons)
  then have range: "py_range_down (int i) (max (- 1) (int i - 5)) = int i # ?rest"
    by (simp add: py_range_down_def)
  have idx: "py_index lines (int i) = Some (lines ! i)"
    using assms(1) by (simp add: py_index_def)
  have inr: "\<And>j. j \<in> set ?rest \<Longrightarrow> 0 \<le> j \<and> j < int (length lines)"
    using assms(1) by auto
  from context_scan_in_range [OF inr, of ?rest "[py_strip (lines ! i)]"]
  obtain r where r: "context_scan lines ?rest [py_strip (lines ! i)] = Inr r"
    by blast
  from context_scan_extends [OF r] obtain pre where pre: "r = pre @ [py_strip (lines ! i)]"
    by blast
  from fence_line_kept [OF assms(2)] idx r
  have "context_scan lines (int i # ?rest) [] = Inr r"
    by (simp add: Let_def)
  with range pre have "extract_context lines (int i) = Inr (Some (py_join '' '' r))"
    by (simp add: extract_context_def)
  with pre show ?thesis by (auto simp: py_join_snoc_suffix)
qed

lemma code_blocks_have_fence_context:
  "\<exists>blocks. code_blocks_from lines i ident = Inr blocks
     \<and> list_all (\<lambda>b. case cb_context b of None \<Rightarrow> False | Some s \<Rightarrow> contains fence s) blocks"
proof (induction lines i ident rule: code_blocks_from.induct)
  case (1 lines i ident)
  show ?case
  proof (cases "i < length lines")
    case False
    then show ?thesis by (simp add: code_blocks_from.simps [of lines i ident])
  next
    case True
    show ?thesis
    proof (cases "startswith (py_strip (lines ! i)) fence")
      case False
      with True "1.IH"(2) show ?thesis
        by (simp add: code_blocks_from.simps [of lines i ident])
    next
      case fenced: True
      from context_of_fence_line [OF True fenced] obtain s where
        ctx: "extract_context lines (int i) = Inr (Some s)"
        and suf: "suffix (py_strip (lines ! i)) s"
        by blast
      from fenced have "prefix fence (py_strip (lines ! i))"
        by (simp add: startswith_def)
      with suf have "sublist fence s"
        by (meson prefix_imp_sublist suffix_imp_sublist sublist_order.order.trans)
      then have c: "contains fence s" by (simp add: contains_iff_sublist)
      let ?n = "length (takeWhile (\<lambda>l. \<not> startswith (py_strip l) fence) (drop (i + 1) lines))"
      have ctx': "extract_context lines (int (i + 1 + 1) - 2) = Inr (Some s)"
        using ctx by simp
      from "1.IH"(1) [OF True refl fenced refl refl refl refl refl refl ctx']
      obtain rest where
        "code_blocks_from lines (i + 1 + ?n + 1) ident = Inr rest"
        "list_all (\<lambda>b. case cb_context b of None \<Rightarrow> False | Some s \<Rightarrow> contains fence s) rest"
        by blast
      with True fenced ctx' c show ?thesis
        by (simp add: code_blocks_from.simps [of lines i ident] Let_def)
    qed
  qed
qed

lemma extract_code_blocks_context:
  "\<exists>blocks. extract_code_blocks markdown ident = Inr blocks
     \<and> list_all (\<lambda>b. case cb_context b of None \<Rightarrow> False | Some s \<Rightarrow> contains fence s) blocks"
  unfolding extract_code_blocks_def by (rule code_blocks_have_fence_context)

section \<open>Properties of ingestion\<close>

lemma keepsD: "keeps obs m \<Longrightarrow> m db = (r, db') \<Longrightarrow> obs db' = obs db"
  by (metis keeps_def snd_conv)

lemma keeps_and_then: "keeps obs m \<Longrightarrow> keeps obs k \<Longrightarrow> keeps obs (and_then m k)"
  unfolding keeps_def and_then_def
  by (auto split: prod.splits sum.splits) (metis snd_conv)+

lemma keeps_when_do: "keeps obs m \<Longrightarrow> keeps obs (when_do c m)"
  by (simp add: keeps_def when_do_def)

lemma keeps_db_call: "(\<And>db. obs (effect db) = obs db) \<Longrightarrow> keeps obs (db_call rt c effect)"
  by (simp add: keeps_def db_call_def split: option.splits)

lemma keeps_guarded_call:
  "(\<And>db. c db \<Longrightarrow> obs (effect db) = obs db) \<Longrightarrow> keeps obs (when_do c (db_call rt cl effect))"
  by (simp add: keeps_def when_do_def db_call_def split: option.splits)

lemma no_metadata_table:
  "''metadata'' \<notin> set (table_names db) \<Longrightarrow> metadata_table db = None"
  by (simp add: table_names_def split: if_splits)

lemma create_tables_keeps_record: "keeps last_ingestion_record (create_tables rt)"
  unfolding create_tables_def
  by (intro keeps_and_then keeps_when_do keeps_db_call keeps_guarded_call)
     (simp_all add: last_ingestion_record_def rows_of_def no_metadata_table)

lemma insert_documents_keeps_record: "keeps last_ingestion_record (insert_documents rt docs)"
  by (simp add: keeps_def insert_documents_def db_call_def last_ingestion_record_def
       split: option.splits)

lemma ingest_data_keeps_record: "keeps last_ingestion_record (ingest_data rt fs)"
proof (cases "parse_all rt fs")
  case (Inl e)
  then show ?thesis by (simp add: keeps_def ingest_data_def)
next
  case (Inr parsed)
  obtain docs blocks els where p: "parsed = (docs, blocks, els)"
    by (cases parsed) auto
  have "keeps last_ingestion_record
     (and_then (db_call rt (DeleteWhere ''code_blocks'')
                       (\<lambda>db. db\<lparr>code_blocks_table := map_option (\<lambda>rows. []) (code_blocks_table db)\<rparr>))
          (and_then (db_call rt (DeleteWhere ''graphql_elements'')
                       (\<lambda>db. db\<lparr>graphql_elements_table :=
                                  map_option (\<lambda>rows. []) (graphql_elements_table db)\<rparr>))
          (and_then (db_call rt (DeleteWhere ''documents'')
                       (\<lambda>db. db\<lparr>documents_table := map_option (\<lambda>rows. []) (documents_table db)\<rparr>))
          (and_then (when_do (\<lambda>db. docs \<noteq> []) (insert_documents rt docs))
          (and_then (when_do (\<lambda>db. blocks \<noteq> [])
                       (db_call rt (InsertAll ''code_blocks'')
                          (\<lambda>db. db\<lparr>code_blocks_table :=
                                     Some (rows_of (code_blocks_table db) @ blocks)\<rparr>)))
                    (when_do (\<lambda>db. els \<noteq> [])
                       (db_call rt (InsertAll ''graphql_elements'')
                          (\<lambda>db. db\<lparr>graphql_elements_table :=
                                     Some (rows_of (graphql_elements_table db)
                                             @ els)\<rparr>))))))))"
    by (intro keeps_and_then keeps_when_do keeps_db_call insert_documents_keeps_record)
       (simp_all add: last_ingestion_record_def)
  then show ?thesis
    by (simp add: keeps_def ingest_data_def Inr p)
qed

lemma ingest_then_update:
  assumes "and_then (ingest_data rt fs) (update_metadata rt fs n) db1 = (x, db2)"
  shows "(x \<noteq> Inr () \<longrightarrow> last_ingestion_record db2 = last_ingestion_record db1)
         \<and> (x = Inr () \<longrightarrow>
              metadata_table db2 \<noteq> None
              \<and> map_option docs_directory_mtime (last_ingestion_record db2)
                  = Some (isoformat rt (latest_mtime fs)))"
proof (cases "ingest_data rt fs db1")
  case (Pair r dbm)
  note k = keepsD [OF ingest_data_keeps_record Pair]
  show ?thesis
  proof (cases r)
    case (Inl e)
    with Pair assms k show ?thesis by (auto simp: and_then_def)
  next
    case (Inr u)
    with Pair assms have "update_metadata rt fs n dbm = (x, db2)"
      by (simp add: and_then_def)
    with k show ?thesis
      by (auto simp: update_metadata_def db_call_def Let_def last_ingestion_record_def
            rows_of_def update_conv' split: option.splits)
  qed
qed

section \<open>Claims about the query layer\<close>

text \<open>
  Claim C1, as amended. When keyword search is called with a category filter that is a
  non-empty string, every document of the returned result list has that category, and
  when \<^verbatim>\<open>DB_TOP_K\<close> is not negative the list has at most \<^verbatim>\<open>DB_TOP_K\<close> entries,
  whatever the full-text engine returned before filtering. (An empty string as category
  is treated as no filter: see the counterexample below.)
\<close>

theorem search_category_filter:
  assumes "search_results fts c db queries (Some v) subcat ctype = Inr results"
    and "v \<noteq> []"
  shows "category ` set results \<subseteq> {v}
         \<and> (0 \<le> DB_TOP_K c \<longrightarrow> int (length results) \<le> DB_TOP_K c)"
proof -
  have "x \<in> set results \<Longrightarrow> category x = v" for x
    using assms
    by (auto simp: search_results_def Let_def truthy_def
             split: sum.splits option.splits if_splits dest!: in_set_py_takeD)
  then have "category ` set results \<subseteq> {v}" by auto
  moreover have "0 \<le> DB_TOP_K c \<longrightarrow> int (length results) \<le> DB_TOP_K c"
    using assms
    by (auto simp: search_results_def Let_def length_py_take split: sum.splits)
  ultimately show ?thesis by simp
qed

theorem search_category_filter_witness:
  "search_results all_rows_match default_config example_store [''cart''] (Some ''usage'') None None
     = Inr [example_document ''usage/c.md'' ''usage'' None [''cart'', ''checkout'']]
   \<and> ''usage'' \<noteq> []
   \<and> category ` set [example_document ''usage/c.md'' ''usage'' None [''cart'', ''checkout'']]
         \<subseteq> {''usage''}
   \<and> 0 \<le> DB_TOP_K default_config
   \<and> int (length [example_document ''usage/c.md'' ''usage'' None [''cart'', ''checkout'']])
         \<le> DB_TOP_K default_config"
proof -
  have run: "search_results all_rows_match default_config example_store [''cart'']
               (Some ''usage'') None None
             = Inr [example_document ''usage/c.md'' ''usage'' None [''cart'', ''checkout'']]"
    by (simp add: search_results_def fts_search_def example_store_def example_rows_def
          all_rows_match_def default_config_def SEARCH_RESULT_MULTIPLIER_def sql_limit_def
          py_take_def truthy_def example_document_def)
  have ne: "''usage'' \<noteq> []" by simp
  have cap: "0 \<le> DB_TOP_K default_config" by (simp add: default_config_def)
  from search_category_filter [OF run ne] run ne cap show ?thesis by blast
qed

text \<open>
  With the empty string as category the filter is skipped and documents of every
  category are returned; and with a negative cap the slice counts from the end, so the
  bound on the number of results needs a cap that is not negative.
\<close>

theorem search_empty_category_counterexample:
  "search_results all_rows_match default_config example_store [''cart''] (Some []) None None
     = Inr example_rows
   \<and> map category example_rows = [''schema'', ''schema'', ''schema'', ''usage'']
   \<and> map file_path
         (case search_results all_rows_match (default_config\<lparr>DB_TOP_K := - 1\<rparr>) example_store
                 [''cart''] (Some ''schema'') None None of
            Inl e \<Rightarrow> []
          | Inr results \<Rightarrow> results)
       = [''schema/products/a.md'', ''schema/products/s.md'']"
  by (simp add: search_results_def fts_search_def example_store_def example_rows_def
        all_rows_match_def default_config_def SEARCH_RESULT_MULTIPLIER_def sql_limit_def
        py_take_def truthy_def example_document_def)

text \<open>
  Claim C5. For a stored corpus and a file path present in it, the list of related
  documents never contains a document with the input path, contains no two documents
  with the same path, and has at most five entries; it is a subsequence of the
  category-branch results followed by the keyword-branch results, and each entry is the
  first document with its path in that sequence.
\<close>

theorem related_documents_distinct_without_source:
  assumes "select_by_file_path db p = Inr (Some src)"
  shows "p \<notin> set (map file_path (all_related sl (rows_of (documents_table db)) src p))
         \<and> distinct (map file_path (all_related sl (rows_of (documents_table db)) src p))
         \<and> length (all_related sl (rows_of (documents_table db)) src p) \<le> 5
         \<and> subseq (all_related sl (rows_of (documents_table db)) src p)
              (related_by_category (rows_of (documents_table db)) src p
                 @ related_by_keywords sl (rows_of (documents_table db)) src p)
         \<and> map (\<lambda>d. find (\<lambda>x. file_path x = file_path d)
                         (related_by_category (rows_of (documents_table db)) src p
                            @ related_by_keywords sl (rows_of (documents_table db)) src p))
                 (all_related sl (rows_of (documents_table db)) src p)
             = map Some (all_related sl (rows_of (documents_table db)) src p)"
proof -
  let ?rows = "rows_of (documents_table db)"
  let ?both = "related_by_category ?rows src p @ related_by_keywords sl ?rows src p"
  let ?r = "all_related sl ?rows src p"
  have r: "?r = take 5 (dedup_by_path [] ?both)"
    by (simp add: all_related_def)
  have "\<forall>d \<in> set ?r. file_path d \<noteq> p"
    using all_related_subset [of sl ?rows src p]
    by (auto dest: related_by_category_not_source related_by_keywords_not_source)
  then have no_source: "p \<notin> set (map file_path ?r)" by auto
  have dist: "distinct (map file_path ?r)"
    unfolding r take_map [symmetric] by (rule distinct_take) (rule dedup_distinct)
  have len: "length ?r \<le> 5" unfolding r by simp
  have "subseq (take 5 (dedup_by_path [] ?both)) (dedup_by_path [] ?both)"
    by (rule prefix_imp_subseq) (rule take_is_prefix)
  from subseq_order.order_trans [OF this dedup_subseq [of "[]" ?both]]
  have sub: "subseq ?r ?both" unfolding r .
  have first: "\<forall>d \<in> set ?r. find (\<lambda>x. file_path x = file_path d) ?both = Some d"
    unfolding r by (auto dest!: in_set_takeD dedup_first_seen)
  from first have "map (\<lambda>d. find (\<lambda>x. file_path x = file_path d) ?both) ?r = map Some ?r"
    by simp
  with no_source dist len sub show ?thesis by blast
qed

theorem related_documents_distinct_without_source_witness:
  "select_by_file_path example_store ''schema/products/a.md''
     = Inr (Some (example_document ''schema/products/a.md'' ''schema'' (Some ''products'') [''cart'']))
   \<and> map file_path
         (all_related remdups example_rows
            (example_document ''schema/products/a.md'' ''schema'' (Some ''products'') [''cart''])
            ''schema/products/a.md'')
       = [''schema/products/s.md'', ''schema/cart/b.md'', ''usage/c.md'']
   \<and> ''schema/products/a.md''
         \<notin> set (map file_path
                    (all_related remdups (rows_of (documents_table example_store))
                       (example_document ''schema/products/a.md'' ''schema'' (Some ''products'')
                          [''cart''])
                       ''schema/products/a.md''))"
proof -
  have sel: "select_by_file_path example_store ''schema/products/a.md''
     = Inr (Some (example_document ''schema/products/a.md'' ''schema'' (Some ''products'') [''cart'']))"
    by (simp add: select_by_file_path_def example_store_def example_rows_def
          example_document_def)
  have run: "map file_path
         (all_related remdups example_rows
            (example_document ''schema/products/a.md'' ''schema'' (Some ''products'') [''cart''])
            ''schema/products/a.md'')
       = [''schema/products/s.md'', ''schema/cart/b.md'', ''usage/c.md'']"
    by code_simp
  from related_documents_distinct_without_source [OF sel, of remdups] sel run
  show ?thesis by blast
qed

text \<open>
  Claim C6, as amended. The relationship label of a related document is decided by its
  category: it is "Same category" exactly when the category equals the source
  document's, and "Similar content" exactly when it differs. Every document produced by
  the same-category-and-subcategory branch is therefore labelled "Same category".
\<close>

theorem relationship_label_by_category:
  "(d \<in> set (related_by_category rows src p) \<longrightarrow> relationship src d = ''Same category'')
   \<and> (relationship src d = ''Same category'' \<longleftrightarrow> category d = category src)
   \<and> (relationship src d = ''Similar content'' \<longleftrightarrow> category d \<noteq> category src)"
  by (auto simp: relationship_def related_by_category_def sql_eq_def dest!: in_set_takeD)

theorem relationship_label_by_category_witness:
  "example_document ''schema/products/s.md'' ''schema'' (Some ''products'') [''cart'']
     \<in> set (related_by_category example_rows
               (example_document ''schema/products/a.md'' ''schema'' (Some ''products'') [''cart''])
               ''schema/products/a.md'')
   \<and> relationship
         (example_document ''schema/products/a.md'' ''schema'' (Some ''products'') [''cart''])
         (example_document ''schema/products/s.md'' ''schema'' (Some ''products'') [''cart''])
       = ''Same category''"
proof -
  have m: "example_document ''schema/products/s.md'' ''schema'' (Some ''products'') [''cart'']
     \<in> set (related_by_category example_rows
               (example_document ''schema/products/a.md'' ''schema'' (Some ''products'') [''cart''])
               ''schema/products/a.md'')"
    by code_simp
  with relationship_label_by_category
         [of "example_document ''schema/products/s.md'' ''schema'' (Some ''products'') [''cart'']"
             example_rows
             "example_document ''schema/products/a.md'' ''schema'' (Some ''products'') [''cart'']"
             "''schema/products/a.md''"]
  show ?thesis by blast
qed

text \<open>
  A document of the same category and another subcategory is produced by the keyword
  branch only, and is labelled "Same category".
\<close>

theorem relationship_label_counterexample:
  "example_document ''schema/cart/b.md'' ''schema'' (Some ''cart'') [''cart'']
     \<notin> set (related_by_category example_rows
               (example_document ''schema/products/a.md'' ''schema'' (Some ''products'') [''cart''])
               ''schema/products/a.md'')
   \<and> example_document ''schema/cart/b.md'' ''schema'' (Some ''cart'') [''cart'']
     \<in> set (all_related remdups example_rows
               (example_document ''schema/products/a.md'' ''schema'' (Some ''products'') [''cart''])
               ''schema/products/a.md'')
   \<and> relationship
         (example_document ''schema/products/a.md'' ''schema'' (Some ''products'') [''cart''])
         (example_document ''schema/cart/b.md'' ''schema'' (Some ''cart'') [''cart''])
       = ''Same category''"
  by code_simp

text \<open>
  Claim C8. When the documents table exists and holds no row with the requested file
  path, \<^verbatim>\<open>get_document\<close> returns (and does not raise) a message that contains
  "Document not found" and points to \<^verbatim>\<open>search_documentation\<close>.
\<close>

theorem get_document_not_found:
  assumes "documents_table db = Some rows" and "p \<notin> set (map file_path rows)"
  shows "get_document db p =
           Inr (''Document not found: '' @ p @ [newline, newline]
                @ ''Tip: Use search_documentation to find the correct file path.'')
         \<and> (\<forall>msg. get_document db p = Inr msg \<longrightarrow>
               contains ''Document not found'' msg \<and> contains ''search_documentation'' msg)"
proof -
  from assms have "find (\<lambda>d. file_path d = p) rows = None"
    by (auto simp: find_None_iff)
  with assms(1) have g: "get_document db p =
           Inr (''Document not found: '' @ p @ [newline, newline]
                @ ''Tip: Use search_documentation to find the correct file path.'')"
    by (simp add: get_document_def select_by_file_path_def)
  have c1: "contains ''Document not found''
              ([] @ ''Document not found'' @ ('': '' @ p @ [newline, newline]
                @ ''Tip: Use search_documentation to find the correct file path.''))"
    by (rule contains_middle)
  have c2: "contains ''search_documentation''
              ((''Document not found: '' @ p @ [newline, newline] @ ''Tip: Use '')
               @ ''search_documentation'' @ '' to find the correct file path.'')"
    by (rule contains_middle)
  from g c1 c2 show ?thesis by simp
qed

theorem get_document_not_found_witness:
  "documents_table example_store = Some example_rows
   \<and> ''missing.md'' \<notin> set (map file_path example_rows)
   \<and> get_document example_store ''missing.md''
       = Inr (''Document not found: '' @ ''missing.md'' @ [newline, newline]
              @ ''Tip: Use search_documentation to find the correct file path.'')"
proof -
  have t: "documents_table example_store = Some example_rows"
    by (simp add: example_store_def)
  have m: "''missing.md'' \<notin> set (map file_path example_rows)"
    by (simp add: example_rows_def example_document_def)
  from get_document_not_found [OF t m] t m show ?thesis by blast
qed

text \<open>
  Claim C10. A path of fewer than three parts gives no subcategory; and for a source
  document without subcategory the same-category-and-subcategory branch selects no row,
  so every related document comes from the keyword branch.
\<close>

theorem null_subcategory_only_keyword_branch:
  "(extract_category_from_path parts = Inr (c, s) \<longrightarrow> (s = None \<longleftrightarrow> length parts < 3))
   \<and> (subcategory src = None \<longrightarrow>
        related_by_category rows src p = []
        \<and> all_related sl rows src p
            = take 5 (dedup_by_path [] (related_by_keywords sl rows src p))
        \<and> set (all_related sl rows src p) \<subseteq> set (related_by_keywords sl rows src p))"
proof -
  have a: "extract_category_from_path parts = Inr (c, s) \<longrightarrow> (s = None \<longleftrightarrow> length parts < 3)"
    by (auto simp: extract_category_from_path_def split: if_splits list.splits)
  have b: "related_by_category rows src p = []" if "subcategory src = None"
    using that by (simp add: related_by_category_def sql_eq_def split: option.splits)
  have c: "set (all_related sl rows src p) \<subseteq> set (related_by_keywords sl rows src p)"
    if "subcategory src = None"
    using all_related_subset [of sl rows src p] b [OF that] by simp
  from a b c show ?thesis by (simp add: all_related_def)
qed

theorem null_subcategory_only_keyword_branch_witness:
  "extract_category_from_path [''usage'', ''c.md''] = Inr (''usage'', None)
   \<and> length [''usage'', ''c.md''] < 3
   \<and> subcategory (example_document ''usage/c.md'' ''usage'' None [''cart'', ''checkout'']) = None
   \<and> related_by_category example_rows
         (example_document ''usage/c.md'' ''usage'' None [''cart'', ''checkout'']) ''usage/c.md'' = []
   \<and> set (all_related remdups example_rows
              (example_document ''usage/c.md'' ''usage'' None [''cart'', ''checkout'']) ''usage/c.md'')
       \<subseteq> set (related_by_keywords remdups example_rows
                  (example_document ''usage/c.md'' ''usage'' None [''cart'', ''checkout''])
                  ''usage/c.md'')"
proof -
  have e: "extract_category_from_path [''usage'', ''c.md''] = Inr (''usage'', None)"
    by (simp add: extract_category_from_path_def)
  have n: "subcategory (example_document ''usage/c.md'' ''usage'' None [''cart'', ''checkout'']) = None"
    by (simp add: example_document_def)
  have l: "length [''usage'', ''c.md''] < 3" by simp
  from null_subcategory_only_keyword_branch
         [of "[''usage'', ''c.md'']" "''usage''" None
             "example_document ''usage/c.md'' ''usage'' None [''cart'', ''checkout'']"
             example_rows "''usage/c.md''" remdups] e n l
  show ?thesis by blast
qed

section \<open>Claims about the parser\<close>

text \<open>
  Claim C4, as amended. For the corpus of the single file
  \<^verbatim>\<open>schema/products/queries/products.md\<close> with front-matter title "Products Query" and
  one fenced graphql block holding \<^verbatim>\<open>query products { items { sku name } }\<close>, parsing
  produces exactly one document (category "schema", subcategory "products", content type
  "schema"), exactly one code block (language "graphql"), and exactly one element, of kind
  "query" and name "products", whose fields are exactly "products" and "items": the
  identifiers followed by an opening brace. This holds for every iteration order of
  Python sets and every field cap of at least two.
\<close>

theorem products_scenario:
  assumes "set_order_ok (set_iteration rt)"
    and "2 \<le> MAX_FIELDS_PER_ELEMENT (cfg rt)"
    and "faults rt WalkDirectory = None"
  shows "(case parse_all rt products_filesystem of
            Inl e \<Rightarrow> False
          | Inr (docs, blocks, els) \<Rightarrow>
              map (\<lambda>d. (file_path d, title d, category d, subcategory d, content_type d)) docs
                = [(''schema/products/queries/products.md'', ''Products Query'',
                    ''schema'', Some ''products'', ''schema'')]
              \<and> map language blocks = [''graphql'']
              \<and> map (\<lambda>e. (element_type e, name e, set (el_fields e))) els
                  = [(''query'', ''products'', {''products'', ''items''})])"
proof -
  have f: "set (py_take (MAX_FIELDS_PER_ELEMENT (cfg rt))
                  (set_iteration rt [''products'', ''items''])) = {''products'', ''items''}"
    using assms(1) _ assms(2) by (rule set_order_two) simp
  have pa: "parse_all rt products_filesystem =
          Inr (parse_files (sha256_hex rt) (set_iteration rt) (MAX_FIELDS_PER_ELEMENT (cfg rt))
                 [products_file])"
    by (simp add: parse_all_def walk_directory_def assms(3) products_filesystem_def
          del: parse_files.simps)
  show ?thesis
    unfolding pa parse_products [OF assms(1)] products_elements [OF assms(1)]
    by (simp add: f products_document_def)
qed

theorem products_scenario_witness:
  "set_order_ok (set_iteration example_runtime)
   \<and> 2 \<le> MAX_FIELDS_PER_ELEMENT (cfg example_runtime)
   \<and> faults example_runtime WalkDirectory = None
   \<and> (case parse_all example_runtime products_filesystem of
         Inl e \<Rightarrow> False
       | Inr (docs, blocks, els) \<Rightarrow>
           map (\<lambda>d. (file_path d, title d, category d, subcategory d, content_type d)) docs
             = [(''schema/products/queries/products.md'', ''Products Query'',
                 ''schema'', Some ''products'', ''schema'')]
           \<and> map language blocks = [''graphql'']
           \<and> map (\<lambda>e. (element_type e, name e, set (el_fields e))) els
               = [(''query'', ''products'', {''products'', ''items''})])"
proof -
  have a: "set_order_ok (set_iteration example_runtime)"
    by (simp add: set_order_ok_def example_runtime_def)
  have b: "2 \<le> MAX_FIELDS_PER_ELEMENT (cfg example_runtime)"
    by (simp add: example_runtime_def default_config_def)
  have c: "faults example_runtime WalkDirectory = None"
    by (simp add: example_runtime_def)
  from products_scenario [OF a b c] a b c show ?thesis by blast
qed

text \<open>
  The fields of that element hold neither "sku" nor "name": no parenthesis, colon or
  brace follows them.
\<close>

theorem products_fields_counterexample:
  "(case parse_all example_runtime products_filesystem of
      Inl e \<Rightarrow> []
    | Inr (docs, blocks, els) \<Rightarrow> map el_fields els) = [[''products'', ''items'']]
   \<and> ''sku'' \<notin> set [''products'', ''items'']
   \<and> ''name'' \<notin> set [''products'', ''items'']"
proof -
  have a: "set_order_ok remdups"
    by (simp add: set_order_ok_def)
  have pa: "parse_all example_runtime products_filesystem =
          Inr (parse_files example_hash remdups 20 [products_file])"
    by (simp add: parse_all_def walk_directory_def products_filesystem_def
          example_runtime_def default_config_def del: parse_files.simps)
  show ?thesis
    unfolding pa parse_products [OF a] products_elements [OF a]
    by (simp add: py_take_def)
qed

text \<open>
  Claim C7: what the code does at two inputs. The scan for the context starts at index
  \<^verbatim>\<open>start_line - 2\<close>, which is the opening fence line itself, so that line is the
  last part of the context: after a paragraph the context is the paragraph followed by
  the fence line, and after a blank line it is the fence line alone, not \<^verbatim>\<open>None\<close>.
\<close>

theorem context_holds_opening_fence:
  "extract_code_blocks
     (''Intro text'' @ [newline] @ fence @ ''graphql'' @ [newline] @ ''query { a }''
        @ [newline] @ fence) ''doc''
   = Inr [\<lparr> cb_document_id = ''doc'', language = ''graphql'', code = ''query { a }'',
            cb_context = Some (''Intro text '' @ fence @ ''graphql''), line_number = 3 \<rparr>]
   \<and> extract_code_blocks
       (''Intro text'' @ [newline] @ [newline] @ fence @ [newline] @ ''x = 1''
          @ [newline] @ fence) ''doc''
     = Inr [\<lparr> cb_document_id = ''doc'', language = ''text'', code = ''x = 1'',
              cb_context = Some fence, line_number = 4 \<rparr>]"
  by code_simp

text \<open>
  Claim C9. For every file parsed into a document, the category is the string "root" for
  a file at the root and the first path part otherwise, the content type is one of
  "schema", "tutorial", "guide" and "reference", and the searchable text starts with the
  title, hence contains it.
\<close>

theorem parsed_document_invariants:
  assumes "parse_file h f = Inr d"
  shows "category d = (if length (rel_parts f) = 1 then ''root'' else hd (rel_parts f))
         \<and> content_type d \<in> set [''schema'', ''tutorial'', ''guide'', ''reference'']
         \<and> prefix (title d) (searchable_text d)
         \<and> contains (title d) (searchable_text d)"
proof -
  from parse_file_fields [OF assms] obtain cat sub where
    e: "extract_category_from_path (rel_parts f) = Inr (cat, sub)"
    and c: "category d = cat"
    and t: "content_type d = determine_content_type cat (path_str (rel_parts f))"
    and s: "searchable_text d
              = build_searchable_text (title d) (description d) (content_md d)
                  (doc_keywords d) (headers d)"
    by blast
  from e c have "category d = (if length (rel_parts f) = 1 then ''root'' else hd (rel_parts f))"
    by (auto simp: extract_category_from_path_def split: if_splits list.splits)
  moreover from t have "content_type d \<in> set [''schema'', ''tutorial'', ''guide'', ''reference'']"
    using determine_content_type_closed [of cat "path_str (rel_parts f)"] by simp
  moreover from s have p: "prefix (title d) (searchable_text d)"
    by (simp add: build_searchable_text_prefix)
  moreover from p have "contains (title d) (searchable_text d)"
    by (auto simp: contains_iff_sublist)
  ultimately show ?thesis by blast
qed

theorem parsed_document_invariants_witness:
  "parse_file example_hash products_file = Inr (products_document example_hash)
   \<and> category (products_document example_hash) = ''schema''
   \<and> content_type (products_document example_hash)
       \<in> set [''schema'', ''tutorial'', ''guide'', ''reference'']
   \<and> prefix (title (products_document example_hash))
        (searchable_text (products_document example_hash))
   \<and> contains (title (products_document example_hash))
        (searchable_text (products_document example_hash))"
proof -
  have p: "parse_file example_hash products_file = Inr (products_document example_hash)"
    by (rule parse_products_file)
  have c: "category (products_document example_hash) = ''schema''"
    by (simp add: products_document_def)
  from parsed_document_invariants [OF p] p c show ?thesis by blast
qed

section \<open>Claims about ingestion\<close>

text \<open>
  Claim C2. After an ingestion pass that ran to completion, a further run on a
  documentation root whose greatest modification time is the same is skipped: it returns
  the store as it was, so the numbers of documents, code blocks and GraphQL elements
  are unchanged.
\<close>

theorem unchanged_corpus_skips_ingestion:
  assumes "ingest_graphql_docs rt fs db = (Inr Complete, db1)"
    and "isoformat rt2 = isoformat rt"
    and "latest_mtime fs2 = latest_mtime fs"
  shows "ingest_graphql_docs rt2 fs2 db1 = (Inr Skipped, db1)
         \<and> entity_counts (snd (ingest_graphql_docs rt2 fs2 db1)) = entity_counts db1"
proof -
  from assms(1) have "\<exists>dbc n. and_then (ingest_data rt fs) (update_metadata rt fs n) dbc
                               = (Inr (), db1)"
    by (auto simp: ingest_graphql_docs_def
             split: if_splits prod.splits sum.splits error.splits)
  then obtain dbc n where
    body: "and_then (ingest_data rt fs) (update_metadata rt fs n) dbc = (Inr (), db1)"
    by blast
  from ingest_then_update [OF body]
  have t: "metadata_table db1 \<noteq> None"
    and m: "map_option docs_directory_mtime (last_ingestion_record db1)
              = Some (isoformat rt (latest_mtime fs))"
    by simp_all
  from t have n: "''metadata'' \<in> set (table_names db1)"
    by (simp add: table_names_def)
  from m obtain row where
    "map_of (rows_of (metadata_table db1)) ''last_ingestion'' = Some row"
    "docs_directory_mtime row = isoformat rt (latest_mtime fs)"
    by (auto simp: last_ingestion_record_def)
  with n assms(2,3) have "\<not> should_reingest rt2 fs2 db1"
    by (simp add: should_reingest_def)
  then show ?thesis
    by (simp add: ingest_graphql_docs_def)
qed

theorem unchanged_corpus_skips_ingestion_witness:
  "fst (ingest_graphql_docs example_runtime products_filesystem empty_store) = Inr Complete
   \<and> entity_counts (snd (ingest_graphql_docs example_runtime products_filesystem empty_store))
       = (1, 1, 1)
   \<and> ingest_graphql_docs example_runtime products_filesystem
         (snd (ingest_graphql_docs example_runtime products_filesystem empty_store))
       = (Inr Skipped,
          snd (ingest_graphql_docs example_runtime products_filesystem empty_store))"
proof -
  have f: "fst (ingest_graphql_docs example_runtime products_filesystem empty_store)
             = Inr Complete"
    by code_simp
  have c: "entity_counts
             (snd (ingest_graphql_docs example_runtime products_filesystem empty_store))
           = (1, 1, 1)"
    by code_simp
  from f have p: "ingest_graphql_docs example_runtime products_filesystem empty_store
            = (Inr Complete,
               snd (ingest_graphql_docs example_runtime products_filesystem empty_store))"
    by (metis prod.collapse)
  from unchanged_corpus_skips_ingestion [OF p refl refl] f c
  show ?thesis by blast
qed

text \<open>
  Claim C3. An ingestion attempt that does not run to completion (an exception raised by
  schema creation, parsing, deletion, insertion or the metadata update itself, or a
  skipped run) leaves the metadata record as it was; and when the documentation root
  does not exist the run is skipped and the store is untouched.
\<close>

theorem failed_ingestion_keeps_metadata:
  "(ingest_graphql_docs rt fs db = (r, db') \<longrightarrow> r \<noteq> Inr Complete \<longrightarrow>
      last_ingestion_record db' = last_ingestion_record db)
   \<and> (\<not> root_exists fs \<longrightarrow> ingest_graphql_docs rt fs db = (Inr Skipped, db))"
proof -
  have skip: "ingest_graphql_docs rt fs db = (Inr Skipped, db)" if "\<not> root_exists fs"
    using that by (simp add: ingest_graphql_docs_def should_reingest_def)
  have kept: "last_ingestion_record db' = last_ingestion_record db"
    if run: "ingest_graphql_docs rt fs db = (r, db')" and r: "r \<noteq> Inr Complete"
  proof (cases "should_reingest rt fs db")
    case False
    with run show ?thesis by (simp add: ingest_graphql_docs_def)
  next
    case True
    obtain c db1 where ct: "create_tables rt db = (c, db1)"
      by (cases "create_tables rt db") auto
    note k1 = keepsD [OF create_tables_keeps_record ct]
    show ?thesis
    proof (cases c)
      case (Inl e)
      with run True ct k1 show ?thesis by (simp add: ingest_graphql_docs_def)
    next
      case (Inr u)
      show ?thesis
      proof (cases "walk_directory rt fs")
        case wd: (Inl e)
        with run True ct Inr k1 show ?thesis
          by (auto simp: ingest_graphql_docs_def split: if_splits error.splits)
      next
        case wd: (Inr files)
        obtain x db2 where
          body: "and_then (ingest_data rt fs) (update_metadata rt fs (int (length files))) db1
                   = (x, db2)"
          by (cases "and_then (ingest_data rt fs) (update_metadata rt fs (int (length files))) db1")
             auto
        from run True ct Inr wd body r have "db' = db1 \<or> (db' = db2 \<and> x \<noteq> Inr ())"
          by (auto simp: ingest_graphql_docs_def split: if_splits sum.splits error.splits)
        with ingest_then_update [OF body] k1 show ?thesis by auto
      qed
    qed
  qed
  from skip kept show ?thesis by blast
qed

theorem failed_ingestion_keeps_metadata_witness:
  "fst (ingest_graphql_docs failing_runtime products_filesystem stale_store) = Inl DatabaseError
   \<and> Inl DatabaseError \<noteq> (Inr Complete :: error + outcome)
   \<and> documents_table (snd (ingest_graphql_docs failing_runtime products_filesystem stale_store))
       = Some []
   \<and> last_ingestion_record
         (snd (ingest_graphql_docs failing_runtime products_filesystem stale_store))
       = last_ingestion_record stale_store
   \<and> \<not> root_exists missing_root
   \<and> ingest_graphql_docs example_runtime missing_root stale_store = (Inr Skipped, stale_store)"
proof -
  have f: "fst (ingest_graphql_docs failing_runtime products_filesystem stale_store)
             = Inl DatabaseError"
    by code_simp
  have d: "documents_table
             (snd (ingest_graphql_docs failing_runtime products_filesystem stale_store))
           = Some []"
    by code_simp
  have m: "\<not> root_exists missing_root"
    by (simp add: missing_root_def)
  have p: "ingest_graphql_docs failing_runtime products_filesystem stale_store
            = (fst (ingest_graphql_docs failing_runtime products_filesystem stale_store),
               snd (ingest_graphql_docs failing_runtime products_filesystem stale_store))"
    by simp
  from failed_ingestion_keeps_metadata
         [of failing_runtime products_filesystem stale_store
             "fst (ingest_graphql_docs failing_runtime products_filesystem stale_store)"
             "snd (ingest_graphql_docs failing_runtime products_filesystem stale_store)"]
       failed_ingestion_keeps_metadata
         [of example_runtime missing_root stale_store "Inr Skipped" stale_store]
       f d m p
  show ?thesis by auto
qed

end
